theory Spec2Isabelle
  imports Main "HOL-Library.Sublist"
begin

section \<open>Python values exchanged with the agent\<close>

text \<open>
  Tool-call arguments reach the program through \<^verbatim>\<open>json.loads\<close>, so every argument
  is a JSON value. Numbers are restricted to integers; only their being non-strings,
  their truth value and their text matter below. A \<open>JObj\<close> is a Python dict in
  insertion order, with distinct keys.
\<close>

datatype json =
    JNull
  | JBool bool
  | JNum int
  | JStr string
  | JArr "json list"
  | JObj "(string \<times> json) list"

datatype exn =
    TypeError
  | AttributeError
  | KeyError
  | JSONDecodeError
  | RuntimeError
  | ExternalError string
  | CancelledError
  | KeyboardInterrupt
  | SystemExit


text \<open>\<^verbatim>\<open>isinstance(v, list)\<close>.\<close>

fun isinstance_list :: "json \<Rightarrow> bool" where
  "isinstance_list (JArr xs) = True"
| "isinstance_list v = False"

text \<open>\<^verbatim>\<open>isinstance(v, str)\<close>, and the string itself.\<close>

fun str_of :: "json \<Rightarrow> string option" where
  "str_of (JStr s) = Some s"
| "str_of v = None"

text \<open>Python's truth value: \<^verbatim>\<open>not v\<close> holds for None, False, 0 and the empty containers.\<close>

fun truthy :: "json \<Rightarrow> bool" where
  "truthy JNull = False"
| "truthy (JBool b) = b"
| "truthy (JNum n) = (n \<noteq> 0)"
| "truthy (JStr s) = (s \<noteq> [])"
| "truthy (JArr xs) = (xs \<noteq> [])"
| "truthy (JObj kvs) = (kvs \<noteq> [])"

text \<open>Lists and dicts are unhashable: using one as a dict key raises TypeError.\<close>

fun hashable :: "json \<Rightarrow> bool" where
  "hashable (JArr xs) = False"
| "hashable (JObj kvs) = False"
| "hashable v = True"

text \<open>
  \<^verbatim>\<open>v in names\<close> for a list of strings, and \<^verbatim>\<open>v in d\<close> for the keys of a
  dict with string keys (on a hashable \<open>v\<close>): only an equal string is a member.
\<close>

fun py_in :: "json \<Rightarrow> string list \<Rightarrow> bool" where
  "py_in (JStr s) names = (s \<in> set names)"
| "py_in v names = False"

text \<open>\<^verbatim>\<open>d.get(v)\<close> on a dict with string keys (on a hashable \<open>v\<close>).\<close>

fun py_get :: "(string \<rightharpoonup> 'a) \<Rightarrow> json \<Rightarrow> 'a option" where
  "py_get d (JStr s) = d s"
| "py_get d v = None"

text \<open>Decimal text of a natural number, and \<^verbatim>\<open>str(v)\<close> as an f-string inserts it.
  Every call site below reaches \<open>py_str\<close> with a scalar only (a container has raised
  TypeError before, being unhashable), so the text of a container is left empty.\<close>

fun dec :: "nat \<Rightarrow> string" where
  "dec n = (if n < 10 then [''0123456789'' ! n]
            else dec (n div 10) @ [''0123456789'' ! (n mod 10)])"

declare dec.simps [simp del]

fun py_str :: "json \<Rightarrow> string" where
  "py_str JNull = ''None''"
| "py_str (JBool b) = (if b then ''True'' else ''False'')"
| "py_str (JNum n) = (if n < 0 then ''-'' @ dec (nat (- n)) else dec (nat n))"
| "py_str (JStr s) = s"
| "py_str (JArr xs) = []"
| "py_str (JObj kvs) = []"

text \<open>\<^verbatim>\<open>sep.join(xs)\<close>: TypeError unless every item is a string.\<close>

fun join :: "string \<Rightarrow> string list \<Rightarrow> string" where
  "join sep [] = []"
| "join sep [x] = x"
| "join sep (x # y # ys) = x @ sep @ join sep (y # ys)"

definition py_join :: "string \<Rightarrow> json list \<Rightarrow> exn + string" where
  "py_join sep xs =
     (case those (map str_of xs) of
        None \<Rightarrow> Inl TypeError
      | Some ss \<Rightarrow> Inr (join sep ss))"

section \<open>Tool definitions, messages and the activation report\<close>

text \<open>
  A tool definition is the dict
  \<^verbatim>\<open>{"type": "function", "function": {"name", "description", "parameters"}}\<close>.
\<close>

record tool_def =
  def_name :: string
  def_description :: string
  def_parameters :: json

text \<open>
  The callable of a Tool is the loader's own closure or some other function object. A
  function object is named by a reference: a function of the module (by its name), or
  the closure \<^verbatim>\<open>tool_execute\<close> that \<^verbatim>\<open>create_tool_function\<close> makes for a tool
  of a server. What a referenced function does when it is called is not in the registry:
  it is given to the dispatch as a table from references to behaviours, and a behaviour
  takes the keyword arguments and the module state and returns a value or raises,
  together with the module state it leaves behind. The value need not be text: calling
  an \<^verbatim>\<open>async def\<close> function without awaiting it yields a coroutine object.
\<close>

datatype fn_ref =
    Local string
  | Remote string string

datatype tool_function =
    LoaderExecute
  | Callable fn_ref

datatype pyvalue =
    Text string
  | Coroutine fn_ref
  | Object json

record message =
  role :: string
  tool_call_id :: string
  content :: pyvalue


record tool_call =
  call_id :: string
  call_name :: string
  call_arguments :: string

text \<open>The three lists a loader call collects: \<^verbatim>\<open>activated\<close>, \<^verbatim>\<open>failed\<close>, \<^verbatim>\<open>errors\<close>.\<close>

record report =
  activated :: "json list"
  failed :: "json list"
  errors :: "string list"

definition empty_report :: report where
  "empty_report = \<lparr>activated = [], failed = [], errors = []\<rparr>"

section \<open>Mode A: dcl_function_calling.py\<close>

record fc_tool =
  fc_definition :: tool_def
  fc_function :: tool_function

record fc_state =
  fc_TOOL_REGISTRY :: "string \<rightharpoonup> fc_tool"
  fc_active_tools :: "tool_def list"
  fc_messages :: "message list"

text \<open>\<^verbatim>\<open>Tool.__init__\<close>: builds the object and stores it in the registry under its name.\<close>

definition fc_Tool :: "tool_def \<Rightarrow> tool_function \<Rightarrow> fc_state \<Rightarrow> fc_tool \<times> fc_state" where
  "fc_Tool d f st =
     (let self = \<lparr>fc_definition = d, fc_function = f\<rparr>
      in (self, st\<lparr>fc_TOOL_REGISTRY := (fc_TOOL_REGISTRY st)(def_name d \<mapsto> self)\<rparr>))"

text \<open>
  The \<^verbatim>\<open>for name in tool_names\<close> loop of \<^verbatim>\<open>loader_execute\<close>. The list
  \<open>active_tool_names\<close> is computed once before the loop and is not updated inside it;
  \<open>act\<close> is the global \<^verbatim>\<open>active_tools\<close>, which the loop appends to. An exception
  leaves what was appended so far.
\<close>

fun fc_activate ::
  "(string \<times> json) list \<Rightarrow> (string \<rightharpoonup> fc_tool) \<Rightarrow> string list \<Rightarrow> json list \<Rightarrow>
   report \<Rightarrow> tool_def list \<Rightarrow> exn option \<times> report \<times> tool_def list" where
  "fc_activate briefs reg active_tool_names [] rep act = (None, rep, act)"
| "fc_activate briefs reg active_tool_names (name # rest) rep act =
     (if py_in name active_tool_names then
        fc_activate briefs reg active_tool_names rest
          (rep\<lparr>errors := errors rep @ [py_str name @ '' already loaded.'']\<rparr>) act
      else if \<not> hashable name then (Some TypeError, rep, act)
      else if \<not> py_in name (map fst briefs) then
        fc_activate briefs reg active_tool_names rest
          (rep\<lparr>failed := failed rep @ [name]\<rparr>) act
      else
        (case py_get reg name of
           Some tool \<Rightarrow>
             fc_activate briefs reg active_tool_names rest
               (rep\<lparr>activated := activated rep @ [name]\<rparr>) (act @ [fc_definition tool])
         | None \<Rightarrow>
             fc_activate briefs reg active_tool_names rest
               (rep\<lparr>failed := failed rep @ [name]\<rparr>) act))"

text \<open>The response text built after the loop; each \<^verbatim>\<open>join\<close> may raise.\<close>

definition fc_response :: "report \<Rightarrow> exn + string" where
  "fc_response rep =
     (case (if activated rep \<noteq> []
            then (case py_join '', '' (activated rep) of
                    Inl e \<Rightarrow> Inl e
                  | Inr a \<Rightarrow> Inr (''Activated tools: '' @ a @ ''.''))
            else Inr ''No tools activated.'') of
        Inl e \<Rightarrow> Inl e
      | Inr r1 \<Rightarrow>
          (case (if failed rep \<noteq> []
                 then (case py_join '', '' (failed rep) of
                         Inl e \<Rightarrow> Inl e
                       | Inr f \<Rightarrow> Inr (r1 @ '' Failed to activate: '' @ f @ ''.''))
                 else Inr r1) of
             Inl e \<Rightarrow> Inl e
           | Inr r2 \<Rightarrow>
               (let r3 = r2 @ '' They are now available for use in the next message.''
                in if errors rep \<noteq> []
                   then Inr (r3 @ ''Errors: '' @ join '', '' (errors rep))
                   else Inr r3)))"

text \<open>
  \<^verbatim>\<open>loader_execute(tool_names)\<close>, a closure over \<open>briefs\<close> (the dict that
  \<^verbatim>\<open>generate_briefs\<close> returned when the loader was created).
\<close>

definition fc_loader_execute ::
  "(string \<times> json) list \<Rightarrow> json \<Rightarrow> fc_state \<Rightarrow> (exn + string) \<times> fc_state" where
  "fc_loader_execute briefs tool_names st =
     (case tool_names of
        JArr names \<Rightarrow>
          (case fc_activate briefs (fc_TOOL_REGISTRY st) (map def_name (fc_active_tools st))
                  names empty_report (fc_active_tools st) of
             (Some e, rep, act) \<Rightarrow> (Inl e, st\<lparr>fc_active_tools := act\<rparr>)
           | (None, rep, act) \<Rightarrow> (fc_response rep, st\<lparr>fc_active_tools := act\<rparr>))
      | _ \<Rightarrow> (Inr ''Error: tool_names must be a list of strings.'', st))"

text \<open>
  \<^verbatim>\<open>generate_briefs(tools_list)\<close>. The external summarizer is a parameter:
  \<open>completion\<close> gets the collected tool definitions (the prompt is built from them
  alone) and raises or returns a response; reading
  \<^verbatim>\<open>response.choices[0].message.content\<close> raises (\<open>NoChoices\<close>) or yields the
  text or None. \<open>loads\<close> is \<^verbatim>\<open>json.loads\<close> after \<^verbatim>\<open>strip\<close>, with None
  when it raises. The result is the returned Python value: a dict is a \<open>JObj\<close>, and
  falling off the end of the function returns None, here \<open>JNull\<close>.
\<close>

datatype llm_response = NoChoices | Content "string option"

text \<open>\<^verbatim>\<open>d[k] = v\<close> on a dict kept in insertion order.\<close>

fun dict_set :: "string \<Rightarrow> 'v \<Rightarrow> (string \<times> 'v) list \<Rightarrow> (string \<times> 'v) list" where
  "dict_set k v [] = [(k, v)]"
| "dict_set k v ((k', v') # kvs) =
     (if k' = k then (k, v) # kvs else (k', v') # dict_set k v kvs)"

text \<open>\<^verbatim>\<open>desc[:100] + "..." if len(desc) > 100 else desc\<close>.\<close>

definition fallback_brief :: "string \<Rightarrow> string" where
  "fallback_brief desc = (if length desc > 100 then take 100 desc @ ''...'' else desc)"

text \<open>The loop of the \<^verbatim>\<open>except\<close> branch.\<close>

fun fc_fallback_briefs ::
  "(string \<rightharpoonup> fc_tool) \<Rightarrow> string list \<Rightarrow> (string \<times> json) list \<Rightarrow> (string \<times> json) list" where
  "fc_fallback_briefs reg [] briefs = briefs"
| "fc_fallback_briefs reg (tool_name # rest) briefs =
     (case reg tool_name of
        Some tool \<Rightarrow>
          fc_fallback_briefs reg rest
            (dict_set tool_name (JStr (fallback_brief (def_description (fc_definition tool))))
               briefs)
      | None \<Rightarrow> fc_fallback_briefs reg rest briefs)"

definition fc_generate_briefs ::
  "(tool_def list \<Rightarrow> exn + llm_response) \<Rightarrow> (string \<Rightarrow> json option) \<Rightarrow>
   (string \<rightharpoonup> fc_tool) \<Rightarrow> string list \<Rightarrow> exn + json" where
  "fc_generate_briefs completion loads reg tools_list =
     (if tools_list = [] then Inr (JObj [])
      else
        (let tool_definitions = map fc_definition (List.map_filter reg tools_list)
         in if tool_definitions = [] then Inr (JObj [])
            else
              (case completion tool_definitions of
                 Inl e \<Rightarrow> Inl e
               | Inr NoChoices \<Rightarrow> Inr (JObj (fc_fallback_briefs reg tools_list []))
               | Inr (Content None) \<Rightarrow> Inr JNull
               | Inr (Content (Some result_text)) \<Rightarrow>
                   (if result_text = [] then Inr JNull
                    else
                      (case loads result_text of
                         Some briefs \<Rightarrow> Inr briefs
                       | None \<Rightarrow> Inr (JObj (fc_fallback_briefs reg tools_list [])))))))"

text \<open>
  The body of \<^verbatim>\<open>for tool_call in message.tool_calls\<close> in \<^verbatim>\<open>main\<close>. An
  exception (\<open>Some e\<close>) leaves \<^verbatim>\<open>main\<close>; nothing there catches it. The list
  \<^verbatim>\<open>messages\<close> is a local variable of \<^verbatim>\<open>main\<close>, out of the reach of a called
  tool, so after a call it is the list from before the call.
\<close>

definition tool_message :: "tool_call \<Rightarrow> pyvalue \<Rightarrow> message" where
  "tool_message tc result = \<lparr>role = ''tool'', tool_call_id = call_id tc, content = result\<rparr>"

text \<open>
  \<^verbatim>\<open>tool.function(**kwargs)\<close> for a tool taken from the registry; \<open>call\<close> is the
  table of behaviours.
\<close>

definition fc_call_function ::
  "(fn_ref \<Rightarrow> (string \<times> json) list \<Rightarrow> fc_state \<Rightarrow> (exn + pyvalue) \<times> fc_state) \<Rightarrow>
   (string \<times> json) list \<Rightarrow> tool_function \<Rightarrow> json \<Rightarrow> fc_state \<Rightarrow>
   (exn + pyvalue) \<times> fc_state" where
  "fc_call_function call briefs f kwargs st =
     (case kwargs of
        JObj kvs \<Rightarrow>
          (case f of
             Callable r \<Rightarrow> call r kvs st
           | LoaderExecute \<Rightarrow>
               (case kvs of
                  [(k, v)] \<Rightarrow>
                    (if k = ''tool_names'' then
                       (case fc_loader_execute briefs v st of
                          (Inl e, st') \<Rightarrow> (Inl e, st')
                        | (Inr result, st') \<Rightarrow> (Inr (Text result), st'))
                     else (Inl TypeError, st))
                | _ \<Rightarrow> (Inl TypeError, st)))
      | _ \<Rightarrow> (Inl TypeError, st))"

definition fc_main_tool_call ::
  "(string \<Rightarrow> json option) \<Rightarrow>
   (fn_ref \<Rightarrow> (string \<times> json) list \<Rightarrow> fc_state \<Rightarrow> (exn + pyvalue) \<times> fc_state) \<Rightarrow>
   (string \<times> json) list \<Rightarrow> tool_call \<Rightarrow> fc_state \<Rightarrow> exn option \<times> fc_state" where
  "fc_main_tool_call loads call briefs tc st =
     (if call_name tc = ''loader'' then
        (case loads (call_arguments tc) of
           None \<Rightarrow> (Some JSONDecodeError, st)
         | Some (JObj kvs) \<Rightarrow>
             (case fc_loader_execute briefs
                     (case map_of kvs ''tool_names'' of None \<Rightarrow> JArr [] | Some v \<Rightarrow> v) st of
                (Inl e, st') \<Rightarrow> (Some e, st')
              | (Inr result, st') \<Rightarrow>
                  (None,
                   st'\<lparr>fc_messages := fc_messages st' @ [tool_message tc (Text result)]\<rparr>))
         | Some _ \<Rightarrow> (Some AttributeError, st))
      else
        (case fc_TOOL_REGISTRY st (call_name tc) of
           None \<Rightarrow> (None, st)
         | Some tool \<Rightarrow>
             (case loads (call_arguments tc) of
                None \<Rightarrow> (Some JSONDecodeError, st)
              | Some kwargs \<Rightarrow>
                  (case fc_call_function call briefs (fc_function tool) kwargs st of
                     (Inl e, st') \<Rightarrow> (Some e, st'\<lparr>fc_messages := fc_messages st\<rparr>)
                   | (Inr result, st') \<Rightarrow>
                       (None,
                        st'\<lparr>fc_messages := fc_messages st @ [tool_message tc result]\<rparr>)))))"


section \<open>Mode B: dcl_mcp.py\<close>

text \<open>
  One entry of \<^verbatim>\<open>LOADER_STATE["servers"]\<close>, a tool descriptor as a server lists it,
  an entry of \<^verbatim>\<open>MCP_SERVERS\<close>, and the fields of \<^verbatim>\<open>MCPServerManager\<close> (the
  session is kept as whether it has been established).
\<close>

record server_state =
  descriptions_loaded :: bool
  summaries_loaded :: bool
  active_tools :: "string list"

record remote_tool =
  rt_name :: string
  rt_description :: string
  rt_inputSchema :: "json option"

record server_config =
  cfg_command :: string
  cfg_args :: "string list"
  cfg_env :: "(string \<times> string option) list"

record manager =
  mgr_server_name :: string
  mgr_server_config :: server_config
  mgr_session :: bool
  mgr_tools :: "remote_tool list"

record mcp_tool =
  mcp_definition :: tool_def
  mcp_function :: tool_function
  mcp_server :: "string option"

record mcp_state =
  mcp_TOOL_REGISTRY :: "string \<rightharpoonup> mcp_tool"
  mcp_active_tools :: "tool_def list"
  MCP_SERVER_MANAGERS :: "string \<rightharpoonup> manager"
  LOADER_STATE :: "string \<rightharpoonup> server_state"
  mcp_messages :: "message list"


text \<open>\<^verbatim>\<open>Tool.__init__\<close> of Mode B.\<close>

definition mcp_Tool ::
  "tool_def \<Rightarrow> tool_function \<Rightarrow> string option \<Rightarrow> mcp_state \<Rightarrow> mcp_tool \<times> mcp_state" where
  "mcp_Tool d f server st =
     (let self = \<lparr>mcp_definition = d, mcp_function = f, mcp_server = server\<rparr>
      in (self, st\<lparr>mcp_TOOL_REGISTRY := (mcp_TOOL_REGISTRY st)(def_name d \<mapsto> self)\<rparr>))"








text \<open>\<^verbatim>\<open>for x in v\<close>: the items of a list, the characters of a string, the keys of a dict.\<close>

fun py_iter :: "json \<Rightarrow> exn + json list" where
  "py_iter (JArr xs) = Inr xs"
| "py_iter (JStr s) = Inr (map (\<lambda>c. JStr [c]) s)"
| "py_iter (JObj kvs) = Inr (map (\<lambda>kv. JStr (fst kv)) kvs)"
| "py_iter v = Inl TypeError"

text \<open>
  The \<^verbatim>\<open>for s in servers\<close> loop of \<^verbatim>\<open>load_tool_summaries\<close>. The first component
  is the exception raised, or the text of the early \<^verbatim>\<open>return\<close>, or neither when the
  loop runs to its end; \<open>acc\<close> is the local list \<^verbatim>\<open>activated\<close>.
\<close>

fun mcp_load_summaries ::
  "json list \<Rightarrow> json list \<Rightarrow> (string \<rightharpoonup> server_state) \<Rightarrow>
   (exn + string option) \<times> json list \<times> (string \<rightharpoonup> server_state)" where
  "mcp_load_summaries [] acc ls = (Inr None, acc, ls)"
| "mcp_load_summaries (s # rest) acc ls =
     (if \<not> hashable s then (Inl TypeError, acc @ [s], ls)
      else
        (case py_get ls s of
           None \<Rightarrow> (Inr (Some (''Error: server '' @ py_str s @ '' not recognized'')), acc @ [s], ls)
         | Some entry \<Rightarrow>
             mcp_load_summaries rest (acc @ [s])
               (ls(py_str s \<mapsto> entry\<lparr>summaries_loaded := True\<rparr>))))"

text \<open>
  The \<^verbatim>\<open>for name in tools\<close> loop of \<^verbatim>\<open>load_tools\<close>, for the server \<open>server\<close> (a
  key of \<^verbatim>\<open>LOADER_STATE["servers"]\<close> by then): \<open>act\<close> is the global
  \<^verbatim>\<open>active_tools\<close> and \<open>own\<close> the server's \<^verbatim>\<open>active_tools\<close> list.
\<close>

fun mcp_activate ::
  "string \<Rightarrow> (string \<rightharpoonup> mcp_tool) \<Rightarrow> string list \<Rightarrow> json list \<Rightarrow>
   report \<Rightarrow> tool_def list \<Rightarrow> string list \<Rightarrow>
   exn option \<times> report \<times> tool_def list \<times> string list" where
  "mcp_activate server reg active_tool_names [] rep act own = (None, rep, act, own)"
| "mcp_activate server reg active_tool_names (name # rest) rep act own =
     (if py_in name active_tool_names then
        mcp_activate server reg active_tool_names rest
          (rep\<lparr>errors := errors rep @ [py_str name @ '' already loaded.'']\<rparr>) act own
      else if \<not> hashable name then (Some TypeError, rep, act, own)
      else
        (case py_get reg name of
           Some tool_info \<Rightarrow>
             (if mcp_server tool_info = Some server then
                mcp_activate server reg active_tool_names rest
                  (rep\<lparr>activated := activated rep @ [name]\<rparr>)
                  (act @ [mcp_definition tool_info]) (own @ [py_str name])
              else
                mcp_activate server reg active_tool_names rest
                  (rep\<lparr>failed := failed rep @ [name]\<rparr>) act own)
         | None \<Rightarrow>
             mcp_activate server reg active_tool_names rest
               (rep\<lparr>failed := failed rep @ [name]\<rparr>) act own))"

definition mcp_response :: "string \<Rightarrow> report \<Rightarrow> exn + string" where
  "mcp_response server rep =
     (case (if activated rep \<noteq> []
            then (case py_join '', '' (activated rep) of
                    Inl e \<Rightarrow> Inl e
                  | Inr a \<Rightarrow> Inr (''Activated tools from '' @ server @ '': '' @ a @ ''.''))
            else Inr (''No tools activated from '' @ server @ ''.'')) of
        Inl e \<Rightarrow> Inl e
      | Inr r1 \<Rightarrow>
          (case (if failed rep \<noteq> []
                 then (case py_join '', '' (failed rep) of
                         Inl e \<Rightarrow> Inl e
                       | Inr f \<Rightarrow> Inr (r1 @ '' Failed: '' @ f @ ''.''))
                 else Inr r1) of
             Inl e \<Rightarrow> Inl e
           | Inr r2 \<Rightarrow>
               (if errors rep \<noteq> []
                then Inr (r2 @ '' Errors: '' @ join '', '' (errors rep))
                else Inr r2)))"

text \<open>
  \<^verbatim>\<open>generate_briefs(tools_list, mcp_server_name)\<close> of Mode B. The caller passes the
  tool objects the server listed (the first loop reads their \<^verbatim>\<open>name\<close>), and the
  fallback loop looks the registry up with those objects themselves. An object is no key
  of the registry, so the lookup finds nothing when the objects are hashable and raises
  TypeError when they are not; which of the two holds is decided by the session library,
  the parameter \<open>hashable_tools\<close>. Here \<open>completion\<close> also gets the server name, which
  the prompt contains, and a response without choices takes the fallback like every
  other failure inside the \<^verbatim>\<open>try\<close>.
\<close>

fun mcp_fallback_briefs ::
  "bool \<Rightarrow> remote_tool list \<Rightarrow> (string \<times> json) list \<Rightarrow> exn + (string \<times> json) list" where
  "mcp_fallback_briefs hashable_tools [] tool_briefs = Inr tool_briefs"
| "mcp_fallback_briefs hashable_tools (tool_name # rest) tool_briefs =
     (if \<not> hashable_tools then Inl TypeError
      else mcp_fallback_briefs hashable_tools rest tool_briefs)"

definition mcp_generate_briefs ::
  "(string \<Rightarrow> tool_def list \<Rightarrow> exn + llm_response) \<Rightarrow> (string \<Rightarrow> json option) \<Rightarrow> bool \<Rightarrow>
   (string \<rightharpoonup> mcp_tool) \<Rightarrow> remote_tool list \<Rightarrow> string \<Rightarrow> exn + json" where
  "mcp_generate_briefs completion loads hashable_tools reg tools_list mcp_server_name =
     (if tools_list = [] \<or> mcp_server_name = [] then
        Inr (JObj [(''server_summary'', JStr []), (''tool_briefs'', JObj [])])
      else
        (let tool_definitions =
               map mcp_definition
                 (filter (\<lambda>tool_info. mcp_server tool_info = Some mcp_server_name)
                    (List.map_filter (\<lambda>tool. reg (rt_name tool)) tools_list));
             fallback =
               (case mcp_fallback_briefs hashable_tools tools_list [] of
                  Inl e \<Rightarrow> Inl e
                | Inr tool_briefs \<Rightarrow>
                    Inr (JObj [(''server_summary'',
                                JStr (mcp_server_name @
                                      '' MCP server provides various tools for specific tasks.'')),
                               (''tool_briefs'', JObj tool_briefs)]))
         in if tool_definitions = [] then
              Inr (JObj [(''server_summary'', JStr []), (''tool_briefs'', JObj [])])
            else
              (case completion mcp_server_name tool_definitions of
                 Inl e \<Rightarrow> Inl e
               | Inr NoChoices \<Rightarrow> fallback
               | Inr (Content None) \<Rightarrow> fallback
               | Inr (Content (Some result_text)) \<Rightarrow>
                   (if result_text = [] then fallback
                    else
                      (case loads result_text of
                         Some result \<Rightarrow> Inr result
                       | None \<Rightarrow> fallback)))))"

text \<open>
  \<^verbatim>\<open>loader_execute(action, servers=None, tools=None, server=None)\<close>; an omitted
  argument is \<open>JNull\<close>.
\<close>

definition summaries_first :: "json \<Rightarrow> string" where
  "summaries_first server =
     ''Error: Tool summaries for '' @ py_str server @ '' must be loaded first.''"

definition mcp_loader_execute ::
  "json \<Rightarrow> json \<Rightarrow> json \<Rightarrow> json \<Rightarrow> mcp_state \<Rightarrow> (exn + string) \<times> mcp_state" where
  "mcp_loader_execute action servers tools server st =
     (if action = JStr ''load_tool_summaries'' then
        (if \<not> truthy servers then
           (Inr ''Error: servers list is required for load_tool_summaries action.'', st)
         else
           (case py_iter servers of
              Inl e \<Rightarrow> (Inl e, st)
            | Inr ss \<Rightarrow>
                (case mcp_load_summaries ss [] (LOADER_STATE st) of
                   (Inl e, acc, ls) \<Rightarrow> (Inl e, st\<lparr>LOADER_STATE := ls\<rparr>)
                 | (Inr (Some text), acc, ls) \<Rightarrow> (Inr text, st\<lparr>LOADER_STATE := ls\<rparr>)
                 | (Inr None, acc, ls) \<Rightarrow>
                     ((if acc \<noteq> []
                       then (case py_join '', '' acc of
                               Inl e \<Rightarrow> Inl e
                             | Inr a \<Rightarrow> Inr (''Loaded tool summaries for servers: '' @ a @ ''.''))
                       else Inr ''No tool summaries loaded.''),
                      st\<lparr>LOADER_STATE := ls\<rparr>))))
      else if action = JStr ''load_tools'' then
        (if \<not> truthy tools \<or> \<not> truthy server then
           (Inr ''Error: tools list and server are required for load_tools action.'', st)
         else if \<not> hashable server then (Inl TypeError, st)
         else
           (case py_get (LOADER_STATE st) server of
              None \<Rightarrow> (Inr (summaries_first server), st)
            | Some entry \<Rightarrow>
                (if \<not> summaries_loaded entry then (Inr (summaries_first server), st)
                 else
                   (case py_get (MCP_SERVER_MANAGERS st) server of
                      None \<Rightarrow>
                        (Inr (''Error: No manager for server '' @ py_str server @ ''.''), st)
                    | Some m \<Rightarrow>
                        (case py_iter tools of
                           Inl e \<Rightarrow> (Inl e, st)
                         | Inr names \<Rightarrow>
                             (case mcp_activate (py_str server) (mcp_TOOL_REGISTRY st)
                                     (map def_name (mcp_active_tools st)) names empty_report
                                     (mcp_active_tools st) (active_tools entry) of
                                (Some e, rep, act, own) \<Rightarrow>
                                  (Inl e,
                                   st\<lparr>mcp_active_tools := act,
                                      LOADER_STATE := (LOADER_STATE st)(py_str server \<mapsto>
                                        entry\<lparr>active_tools := own\<rparr>)\<rparr>)
                              | (None, rep, act, own) \<Rightarrow>
                                  (mcp_response (py_str server) rep,
                                   st\<lparr>mcp_active_tools := act,
                                      LOADER_STATE := (LOADER_STATE st)(py_str server \<mapsto>
                                        entry\<lparr>active_tools := own\<rparr>)\<rparr>)))))))
      else
        (Inr (''Error: Invalid action. Use '' @ [CHR 0x27] @ ''load_tool_summaries'' @ [CHR 0x27]
              @ '' or '' @ [CHR 0x27] @ ''load_tools'' @ [CHR 0x27] @ ''.''), st))"

text \<open>
  \<^verbatim>\<open>refresh_loader_tool_description\<close>. The text comes from
  \<^verbatim>\<open>generate_loader_description\<close>, which reads \<^verbatim>\<open>SERVER_BRIEFS\<close> (fixed once the
  loader exists) and \<^verbatim>\<open>LOADER_STATE\<close> and may raise; it is the parameter
  \<open>describe\<close>. The dict it rewrites is also the definition of the loader's Tool in the
  registry; nothing below reads a description from the registry.
\<close>

definition refresh_loader_tool_description ::
  "((string \<rightharpoonup> server_state) \<Rightarrow> exn + string) \<Rightarrow> mcp_state \<Rightarrow> exn option \<times> mcp_state" where
  "refresh_loader_tool_description describe st =
     (if ''loader'' \<in> set (map def_name (mcp_active_tools st)) then
        (case describe (LOADER_STATE st) of
           Inl e \<Rightarrow> (Some e, st)
         | Inr d \<Rightarrow>
             (None,
              st\<lparr>mcp_active_tools :=
                   map (\<lambda>tool. if def_name tool = ''loader''
                               then tool\<lparr>def_description := d\<rparr> else tool)
                     (mcp_active_tools st)\<rparr>))
      else (None, st))"

text \<open>
  Binding \<^verbatim>\<open>**arguments\<close> to the parameters of \<^verbatim>\<open>loader_execute\<close>: TypeError on
  an unexpected keyword or a missing \<^verbatim>\<open>action\<close>.
\<close>

definition mcp_loader_kwargs :: "(string \<times> json) list \<Rightarrow> exn + json \<times> json \<times> json \<times> json" where
  "mcp_loader_kwargs kvs =
     (if \<not> list_all (\<lambda>k. k \<in> set [''action'', ''servers'', ''tools'', ''server''])
              (map fst kvs)
      then Inl TypeError
      else
        (case map_of kvs ''action'' of
           None \<Rightarrow> Inl TypeError
         | Some a \<Rightarrow>
             Inr (a,
                  (case map_of kvs ''servers'' of None \<Rightarrow> JNull | Some v \<Rightarrow> v),
                  (case map_of kvs ''tools'' of None \<Rightarrow> JNull | Some v \<Rightarrow> v),
                  (case map_of kvs ''server'' of None \<Rightarrow> JNull | Some v \<Rightarrow> v))))"

text \<open>
  Calling a referenced function in Mode B. The closure \<^verbatim>\<open>tool_execute\<close> of a server's
  tool awaits \<^verbatim>\<open>session.call_tool\<close> (the parameter \<open>call_tool\<close>, by server and tool
  name) and returns the text of its result; it does not touch the module state, and its
  manager's session is set from before the closure was made. Any other function is
  looked up in the table \<open>call\<close>, which gives the outcome of awaiting the call.
\<close>

definition mcp_apply ::
  "(string \<Rightarrow> string \<Rightarrow> (string \<times> json) list \<Rightarrow> exn + string) \<Rightarrow>
   (fn_ref \<Rightarrow> (string \<times> json) list \<Rightarrow> mcp_state \<Rightarrow> (exn + pyvalue) \<times> mcp_state) \<Rightarrow>
   fn_ref \<Rightarrow> (string \<times> json) list \<Rightarrow> mcp_state \<Rightarrow> (exn + pyvalue) \<times> mcp_state" where
  "mcp_apply call_tool call r kvs st =
     (case r of
        Remote server_name tool_name \<Rightarrow>
          (case call_tool server_name tool_name kvs of
             Inl e \<Rightarrow> (Inl e, st)
           | Inr result \<Rightarrow> (Inr (Text result), st))
      | Local f \<Rightarrow> call (Local f) kvs st)"

definition mcp_call_function ::
  "(string \<Rightarrow> string \<Rightarrow> (string \<times> json) list \<Rightarrow> exn + string) \<Rightarrow>
   (fn_ref \<Rightarrow> (string \<times> json) list \<Rightarrow> mcp_state \<Rightarrow> (exn + pyvalue) \<times> mcp_state) \<Rightarrow>
   tool_function \<Rightarrow> json \<Rightarrow> mcp_state \<Rightarrow> (exn + pyvalue) \<times> mcp_state" where
  "mcp_call_function call_tool call f kwargs st =
     (case kwargs of
        JObj kvs \<Rightarrow>
          (case f of
             Callable r \<Rightarrow> mcp_apply call_tool call r kvs st
           | LoaderExecute \<Rightarrow>
               (case mcp_loader_kwargs kvs of
                  Inl e \<Rightarrow> (Inl e, st)
                | Inr (a, ss, ts, sv) \<Rightarrow>
                    (case mcp_loader_execute a ss ts sv st of
                       (Inl e, st') \<Rightarrow> (Inl e, st')
                     | (Inr result, st') \<Rightarrow> (Inr (Text result), st'))))
      | _ \<Rightarrow> (Inl TypeError, st))"

text \<open>The body of \<^verbatim>\<open>for tool_call in message.tool_calls\<close> in \<^verbatim>\<open>main\<close> of Mode B.\<close>

definition mcp_main_tool_call ::
  "(string \<Rightarrow> json option) \<Rightarrow> ((string \<rightharpoonup> server_state) \<Rightarrow> exn + string) \<Rightarrow>
   (string \<Rightarrow> string \<Rightarrow> (string \<times> json) list \<Rightarrow> exn + string) \<Rightarrow>
   (fn_ref \<Rightarrow> (string \<times> json) list \<Rightarrow> mcp_state \<Rightarrow> (exn + pyvalue) \<times> mcp_state) \<Rightarrow>
   tool_call \<Rightarrow> mcp_state \<Rightarrow> exn option \<times> mcp_state" where
  "mcp_main_tool_call loads describe call_tool call tc st =
     (if call_name tc = ''loader'' then
        (case loads (call_arguments tc) of
           None \<Rightarrow> (Some JSONDecodeError, st)
         | Some arguments \<Rightarrow>
             (case mcp_call_function call_tool call LoaderExecute arguments st of
                (Inl e, st') \<Rightarrow> (Some e, st')
              | (Inr result, st') \<Rightarrow>
                  (case refresh_loader_tool_description describe st' of
                     (Some e, st'') \<Rightarrow> (Some e, st'')
                   | (None, st'') \<Rightarrow>
                       (None,
                        st''\<lparr>mcp_messages := mcp_messages st'' @ [tool_message tc result]\<rparr>))))
      else
        (case mcp_TOOL_REGISTRY st (call_name tc) of
           None \<Rightarrow> (None, st)
         | Some tool \<Rightarrow>
             (case loads (call_arguments tc) of
                None \<Rightarrow> (Some JSONDecodeError, st)
              | Some kwargs \<Rightarrow>
                  (case mcp_call_function call_tool call (mcp_function tool) kwargs st of
                     (Inl e, st') \<Rightarrow> (Some e, st'\<lparr>mcp_messages := mcp_messages st\<rparr>)
                   | (Inr result, st') \<Rightarrow>
                       (None,
                        st'\<lparr>mcp_messages := mcp_messages st @ [tool_message tc result]\<rparr>)))))"


section \<open>The tools and servers the modules set up\<close>

text \<open>
  Three of the example tools of Mode A with their definitions, the loader's definition
  of each mode (its description is generated text, a parameter here), and the state in
  which \<^verbatim>\<open>main\<close> of Mode A enters its loop when the registry holds the calculator, the
  weather tool and the loader.
\<close>


definition CALC_DEFINITION :: tool_def where
  "CALC_DEFINITION =
     \<lparr>def_name = ''calculator'',
      def_description = ''Performs mathematical calculations.'',
      def_parameters =
        JObj [(''type'', JStr ''object''),
              (''properties'',
               JObj [(''expression'',
                      JObj [(''type'', JStr ''string''),
                            (''description'', JStr ''The mathematical expression to evaluate.'')])]),
              (''required'', JArr [JStr ''expression''])]\<rparr>"

definition WEATHER_DEFINITION :: tool_def where
  "WEATHER_DEFINITION =
     \<lparr>def_name = ''get_weather'',
      def_description = ''Gets the current weather for a location.'',
      def_parameters =
        JObj [(''type'', JStr ''object''),
              (''properties'',
               JObj [(''location'',
                      JObj [(''type'', JStr ''string''),
                            (''description'', JStr ''The location to get weather for.'')])]),
              (''required'', JArr [JStr ''location''])]\<rparr>"

definition fc_LOADER_TOOL_DEFINITION :: "string \<Rightarrow> tool_def" where
  "fc_LOADER_TOOL_DEFINITION description =
     \<lparr>def_name = ''loader'',
      def_description = description,
      def_parameters =
        JObj [(''type'', JStr ''object''),
              (''properties'',
               JObj [(''tool_names'',
                      JObj [(''type'', JStr ''array''),
                            (''items'', JObj [(''type'', JStr ''string'')]),
                            (''description'',
                             JStr ''List of tool names to activate and add to context.'')])]),
              (''required'', JArr [JStr ''tool_names''])]\<rparr>"

definition BASH_DEFINITION :: tool_def where
  "BASH_DEFINITION =
     \<lparr>def_name = ''bash'',
      def_description = ''Executes bash commands with security checks and timeout.'',
      def_parameters =
        JObj [(''type'', JStr ''object''),
              (''properties'',
               JObj [(''command'',
                      JObj [(''type'', JStr ''string''),
                            (''description'', JStr ''The bash command to execute.'')])]),
              (''required'', JArr [JStr ''command''])]\<rparr>"

definition fc_example :: fc_state where
  "fc_example =
     \<lparr>fc_TOOL_REGISTRY =
        [''calculator'' \<mapsto>
           \<lparr>fc_definition = CALC_DEFINITION,
            fc_function = Callable (Local ''calculate_execute'')\<rparr>,
         ''get_weather'' \<mapsto>
           \<lparr>fc_definition = WEATHER_DEFINITION,
            fc_function = Callable (Local ''get_weather_execute'')\<rparr>,
         ''loader'' \<mapsto>
           \<lparr>fc_definition = fc_LOADER_TOOL_DEFINITION ''Dynamic Tool Loader'',
            fc_function = LoaderExecute\<rparr>],
      fc_active_tools = [fc_LOADER_TOOL_DEFINITION ''Dynamic Tool Loader''],
      fc_messages = []\<rparr>"


definition fc_example_briefs :: "(string \<times> json) list" where
  "fc_example_briefs =
     [(''calculator'', JStr ''Performs mathematical calculations.''),
      (''get_weather'', JStr ''Gets the current weather for a location.'')]"

text \<open>
  What the functions of Mode A do when they are called. \<^verbatim>\<open>calculate_execute\<close> hands
  the expression to \<^verbatim>\<open>eval\<close>, which runs it with the globals of the module, returns
  the text of the value, and turns an \<^verbatim>\<open>Exception\<close> into an error text. The evaluator
  is a parameter: it yields the text of the value, or the text of the exception raised,
  or an exception that the handler does not catch, and the module state afterwards.
  \<open>example_eval\<close> is a stand-in that agrees with \<^verbatim>\<open>eval\<close> on the two expressions
  used below: a product, and a call that empties the list \<^verbatim>\<open>active_tools\<close> and has
  the value None. \<^verbatim>\<open>bash_execute\<close> is declared \<^verbatim>\<open>async\<close> and \<^verbatim>\<open>main\<close> of
  Mode A does not await it, so the call runs nothing and yields a coroutine object. The
  weather function draws random numbers; its stand-in returns one of its texts.
\<close>

datatype eval_outcome =
    Value string
  | Raises string
  | Escapes exn

definition calculate_execute ::
  "(json \<Rightarrow> fc_state \<Rightarrow> eval_outcome \<times> fc_state) \<Rightarrow> (string \<times> json) list \<Rightarrow> fc_state \<Rightarrow>
   (exn + pyvalue) \<times> fc_state" where
  "calculate_execute py_eval kvs st =
     (case kvs of
        [(k, expression)] \<Rightarrow>
          (if k = ''expression'' then
             (case py_eval expression st of
                (Value result, st') \<Rightarrow> (Inr (Text result), st')
              | (Raises e, st') \<Rightarrow> (Inr (Text (''Error: '' @ e)), st')
              | (Escapes e, st') \<Rightarrow> (Inl e, st'))
           else (Inl TypeError, st))
      | _ \<Rightarrow> (Inl TypeError, st))"

definition example_eval :: "json \<Rightarrow> fc_state \<Rightarrow> eval_outcome \<times> fc_state" where
  "example_eval expression st =
     (if expression = JStr ''15 * 7'' then (Value ''105'', st)
      else if expression = JStr ''active_tools.clear()''
      then (Value ''None'', st\<lparr>fc_active_tools := []\<rparr>)
      else (Raises ''invalid syntax'', st))"

definition fc_example_call ::
  "fn_ref \<Rightarrow> (string \<times> json) list \<Rightarrow> fc_state \<Rightarrow> (exn + pyvalue) \<times> fc_state" where
  "fc_example_call r kvs st =
     (if r = Local ''calculate_execute'' then calculate_execute example_eval kvs st
      else if r = Local ''get_weather_execute'' then
        (if map fst kvs = [''location'']
         then (Inr (Text ''Weather in New York: sunny, 21 degrees''), st)
         else (Inl TypeError, st))
      else if r = Local ''bash_execute'' then
        (if map fst kvs = [''command''] then (Inr (Coroutine r), st) else (Inl TypeError, st))
      else (Inl RuntimeError, st))"

text \<open>
  Mode B: \<^verbatim>\<open>MCP_SERVERS\<close> (the environment holds neither token), one tool of each
  server, and the state in which \<^verbatim>\<open>main\<close> enters its loop when only the github
  server came up and listed that tool.
\<close>

definition MCP_SERVERS :: "(string \<times> server_config) list" where
  "MCP_SERVERS =
     [(''github'',
       \<lparr>cfg_command = ''docker'',
        cfg_args = [''run'', ''-i'', ''--rm'', ''-e'', ''GITHUB_PERSONAL_ACCESS_TOKEN'',
                    ''ghcr.io/github/github-mcp-server'', ''stdio''],
        cfg_env = [(''GITHUB_PERSONAL_ACCESS_TOKEN'', None)]\<rparr>),
      (''figma'',
       \<lparr>cfg_command = ''npx'',
        cfg_args = [''-y'', ''figma-developer-mcp'', ''--stdio''],
        cfg_env = [(''FIGMA_OAUTH_TOKEN'', None)]\<rparr>)]"

definition search_repositories :: remote_tool where
  "search_repositories =
     \<lparr>rt_name = ''search_repositories'',
      rt_description = ''Search for GitHub repositories.'',
      rt_inputSchema = Some (JObj [(''type'', JStr ''object'')])\<rparr>"


definition mcp_LOADER_TOOL_DEFINITION :: "string \<Rightarrow> tool_def" where
  "mcp_LOADER_TOOL_DEFINITION description =
     \<lparr>def_name = ''loader'',
      def_description = description,
      def_parameters =
        JObj [(''type'', JStr ''object''),
              (''properties'',
               JObj [(''action'',
                      JObj [(''type'', JStr ''string''),
                            (''enum'', JArr [JStr ''load_tool_summaries'', JStr ''load_tools''])]),
                     (''servers'',
                      JObj [(''type'', JStr ''array''),
                            (''items'', JObj [(''type'', JStr ''string'')])]),
                     (''tools'',
                      JObj [(''type'', JStr ''array''),
                            (''items'', JObj [(''type'', JStr ''string'')])]),
                     (''server'', JObj [(''type'', JStr ''string'')])]),
              (''required'', JArr [JStr ''action''])]\<rparr>"

definition github_tool :: mcp_tool where
  "github_tool =
     \<lparr>mcp_definition =
        \<lparr>def_name = ''search_repositories'',
         def_description = ''Search for GitHub repositories.'',
         def_parameters = JObj [(''type'', JStr ''object'')]\<rparr>,
      mcp_function = Callable (Remote ''github'' ''search_repositories''),
      mcp_server = Some ''github''\<rparr>"


definition mcp_example :: mcp_state where
  "mcp_example =
     \<lparr>mcp_TOOL_REGISTRY =
        [''search_repositories'' \<mapsto> github_tool,
         ''loader'' \<mapsto>
           \<lparr>mcp_definition = mcp_LOADER_TOOL_DEFINITION ''Dynamic Tool Loader'',
            mcp_function = LoaderExecute, mcp_server = None\<rparr>],
      mcp_active_tools = [mcp_LOADER_TOOL_DEFINITION ''Dynamic Tool Loader''],
      MCP_SERVER_MANAGERS =
        [''github'' \<mapsto>
           \<lparr>mgr_server_name = ''github'', mgr_server_config = snd (hd MCP_SERVERS),
            mgr_session = True, mgr_tools = [search_repositories]\<rparr>],
      LOADER_STATE =
        [''github'' \<mapsto>
           \<lparr>descriptions_loaded = True, summaries_loaded = False, active_tools = []\<rparr>],
      mcp_messages = []\<rparr>"

text \<open>The same state after the agent has called \<^verbatim>\<open>load_tool_summaries(["github"])\<close>.\<close>

definition mcp_example_loaded :: mcp_state where
  "mcp_example_loaded =
     snd (mcp_loader_execute (JStr ''load_tool_summaries'') (JArr [JStr ''github'']) JNull JNull
            mcp_example)"

text \<open>
  A session in which every remote call returns the same text, and a table for a module
  that, like Mode B, defines no tool function of its own.
\<close>

definition example_call_tool :: "string \<Rightarrow> string \<Rightarrow> (string \<times> json) list \<Rightarrow> exn + string" where
  "example_call_tool server_name tool_name kvs = Inr ''5 repositories''"

definition mcp_no_local ::
  "fn_ref \<Rightarrow> (string \<times> json) list \<Rightarrow> mcp_state \<Rightarrow> (exn + pyvalue) \<times> mcp_state" where
  "mcp_no_local r kvs st = (Inl RuntimeError, st)"




section \<open>Auxiliary facts\<close>

lemmas fc_example_simps =
  fc_example_def fc_example_briefs_def CALC_DEFINITION_def WEATHER_DEFINITION_def
  fc_LOADER_TOOL_DEFINITION_def

lemmas mcp_example_simps =
  mcp_example_def github_tool_def mcp_LOADER_TOOL_DEFINITION_def MCP_SERVERS_def
  search_repositories_def

lemma those_map_JStr: "those (map (str_of \<circ> JStr) ss) = Some ss"
  by (induction ss) simp_all

lemma py_join_strs: "py_join sep (map JStr ss) = Inr (join sep ss)"
  by (simp add: py_join_def those_map_JStr)

lemma mcp_example_loaded_eq:
  "mcp_example_loaded =
     mcp_example\<lparr>LOADER_STATE :=
       [''github'' \<mapsto>
          \<lparr>descriptions_loaded = True, summaries_loaded = True, active_tools = []\<rparr>]\<rparr>"
  by (simp add: mcp_example_loaded_def mcp_loader_execute_def mcp_example_simps py_join_def)

text \<open>On a list of strings the activation loop of Mode A never raises, and it sorts the
  names into the three lists by the snapshot, the briefs and the registry alone.\<close>

lemma fc_activate_strs:
  "fc_activate briefs reg snap (map JStr names) rep act =
     (None,
      \<lparr>activated = activated rep @
         map JStr (filter (\<lambda>n. n \<notin> set snap \<and> n \<in> fst ` set briefs \<and> reg n \<noteq> None) names),
       failed = failed rep @
         map JStr
           (filter (\<lambda>n. n \<notin> set snap \<and> \<not> (n \<in> fst ` set briefs \<and> reg n \<noteq> None)) names),
       errors = errors rep @
         map (\<lambda>n. n @ '' already loaded.'') (filter (\<lambda>n. n \<in> set snap) names)\<rparr>,
      act @ map (\<lambda>n. fc_definition (the (reg n)))
              (filter (\<lambda>n. n \<notin> set snap \<and> n \<in> fst ` set briefs \<and> reg n \<noteq> None) names))"
proof (induction names arbitrary: rep act)
  case Nil
  show ?case by simp
next
  case (Cons n names)
  show ?case by (auto simp: Cons.IH)
qed


text \<open>Servers that are all registered are marked one after the other.\<close>

lemma mcp_load_summaries_known:
  "set pre \<subseteq> dom ls \<Longrightarrow>
   mcp_load_summaries (map JStr pre @ rest) acc ls =
     mcp_load_summaries rest (acc @ map JStr pre)
       (\<lambda>k. if k \<in> set pre
            then map_option (\<lambda>e. e\<lparr>summaries_loaded := True\<rparr>) (ls k) else ls k)"
proof (induction pre arbitrary: acc ls)
  case Nil
  show ?case by simp
next
  case (Cons p ps)
  from Cons.prems obtain e where e: "ls p = Some e" by auto
  let ?ls = "ls(p \<mapsto> e\<lparr>summaries_loaded := True\<rparr>)"
  have sub: "set ps \<subseteq> dom ?ls" using Cons.prems by auto
  have same:
    "(\<lambda>k. if k \<in> set ps
          then map_option (\<lambda>e. e\<lparr>summaries_loaded := True\<rparr>) (?ls k) else ?ls k) =
     (\<lambda>k. if k \<in> set (p # ps)
          then map_option (\<lambda>e. e\<lparr>summaries_loaded := True\<rparr>) (ls k) else ls k)"
    using e by (auto simp: fun_eq_iff)
  have "mcp_load_summaries (map JStr (p # ps) @ rest) acc ls =
        mcp_load_summaries (map JStr ps @ rest) (acc @ [JStr p]) ?ls"
    using e by simp
  also have "\<dots> = mcp_load_summaries rest ((acc @ [JStr p]) @ map JStr ps)
       (\<lambda>k. if k \<in> set ps
            then map_option (\<lambda>e. e\<lparr>summaries_loaded := True\<rparr>) (?ls k) else ?ls k)"
    by (rule Cons.IH [OF sub])
  finally show ?case
    by (simp only: same) simp
qed

text \<open>The same for the activation loop of Mode B, and the response texts of both modes on
  lists of strings.\<close>

lemma mcp_activate_strs:
  "mcp_activate server reg snap (map JStr names) rep act own =
     (None,
      \<lparr>activated = activated rep @
         map JStr (filter (\<lambda>n. n \<notin> set snap \<and>
                                map_option mcp_server (reg n) = Some (Some server)) names),
       failed = failed rep @
         map JStr (filter (\<lambda>n. n \<notin> set snap \<and>
                                map_option mcp_server (reg n) \<noteq> Some (Some server)) names),
       errors = errors rep @
         map (\<lambda>n. n @ '' already loaded.'') (filter (\<lambda>n. n \<in> set snap) names)\<rparr>,
      act @ map (\<lambda>n. mcp_definition (the (reg n)))
              (filter (\<lambda>n. n \<notin> set snap \<and>
                           map_option mcp_server (reg n) = Some (Some server)) names),
      own @ filter (\<lambda>n. n \<notin> set snap \<and>
                         map_option mcp_server (reg n) = Some (Some server)) names)"
proof (induction names arbitrary: rep act own)
  case Nil
  show ?case by simp
next
  case (Cons n names)
  show ?case by (cases "reg n") (auto simp: Cons.IH)
qed

lemma fc_response_strs:
  "fc_response \<lparr>activated = map JStr a, failed = map JStr f, errors = e\<rparr> =
     Inr ((if a \<noteq> [] then ''Activated tools: '' @ join '', '' a @ ''.''
           else ''No tools activated.'') @
          (if f \<noteq> [] then '' Failed to activate: '' @ join '', '' f @ ''.'' else []) @
          '' They are now available for use in the next message.'' @
          (if e \<noteq> [] then ''Errors: '' @ join '', '' e else []))"
  by (simp add: fc_response_def py_join_strs)

lemma mcp_response_strs:
  "mcp_response server \<lparr>activated = map JStr a, failed = map JStr f, errors = e\<rparr> =
     Inr ((if a \<noteq> [] then ''Activated tools from '' @ server @ '': '' @ join '', '' a @ ''.''
           else ''No tools activated from '' @ server @ ''.'') @
          (if f \<noteq> [] then '' Failed: '' @ join '', '' f @ ''.'' else []) @
          (if e \<noteq> [] then '' Errors: '' @ join '', '' e else []))"
  by (simp add: mcp_response_def py_join_strs)

lemma fc_loader_execute_strs:
  "fc_loader_execute briefs (JArr (map JStr names)) st =
     (Inr ((if filter (\<lambda>m. m \<notin> set (map def_name (fc_active_tools st)) \<and>
                           m \<in> fst ` set briefs \<and> fc_TOOL_REGISTRY st m \<noteq> None) names \<noteq> []
            then ''Activated tools: '' @
                 join '', '' (filter (\<lambda>m. m \<notin> set (map def_name (fc_active_tools st)) \<and>
                           m \<in> fst ` set briefs \<and> fc_TOOL_REGISTRY st m \<noteq> None) names) @ ''.''
            else ''No tools activated.'') @
           (if filter (\<lambda>m. m \<notin> set (map def_name (fc_active_tools st)) \<and>
                           \<not> (m \<in> fst ` set briefs \<and> fc_TOOL_REGISTRY st m \<noteq> None)) names \<noteq> []
            then '' Failed to activate: '' @
                 join '', '' (filter (\<lambda>m. m \<notin> set (map def_name (fc_active_tools st)) \<and>
                           \<not> (m \<in> fst ` set briefs \<and> fc_TOOL_REGISTRY st m \<noteq> None)) names) @ ''.''
            else []) @
           '' They are now available for use in the next message.'' @
           (if filter (\<lambda>m. m \<in> set (map def_name (fc_active_tools st))) names \<noteq> []
            then ''Errors: '' @
                 join '', '' (map (\<lambda>m. m @ '' already loaded.'')
                   (filter (\<lambda>m. m \<in> set (map def_name (fc_active_tools st))) names))
            else [])),
      st\<lparr>fc_active_tools := fc_active_tools st @
           map (\<lambda>m. fc_definition (the (fc_TOOL_REGISTRY st m)))
             (filter (\<lambda>m. m \<notin> set (map def_name (fc_active_tools st)) \<and>
                          m \<in> fst ` set briefs \<and> fc_TOOL_REGISTRY st m \<noteq> None) names)\<rparr>)"
  by (simp add: fc_loader_execute_def fc_activate_strs empty_report_def fc_response_strs)

lemma mcp_load_tools_strs:
  assumes "LOADER_STATE st server = Some entry" and "summaries_loaded entry"
    and "MCP_SERVER_MANAGERS st server = Some m" and "names \<noteq> []" and "server \<noteq> []"
  shows
    "mcp_loader_execute (JStr ''load_tools'') servers (JArr (map JStr names)) (JStr server) st =
       (Inr ((if filter (\<lambda>m. m \<notin> set (map def_name (mcp_active_tools st)) \<and>
                   map_option mcp_server (mcp_TOOL_REGISTRY st m) = Some (Some server)) names \<noteq> []
              then ''Activated tools from '' @ server @ '': '' @
                   join '', '' (filter (\<lambda>m. m \<notin> set (map def_name (mcp_active_tools st)) \<and>
                     map_option mcp_server (mcp_TOOL_REGISTRY st m) = Some (Some server)) names) @ ''.''
              else ''No tools activated from '' @ server @ ''.'') @
             (if filter (\<lambda>m. m \<notin> set (map def_name (mcp_active_tools st)) \<and>
                   map_option mcp_server (mcp_TOOL_REGISTRY st m) \<noteq> Some (Some server)) names \<noteq> []
              then '' Failed: '' @
                   join '', '' (filter (\<lambda>m. m \<notin> set (map def_name (mcp_active_tools st)) \<and>
                     map_option mcp_server (mcp_TOOL_REGISTRY st m) \<noteq> Some (Some server)) names) @ ''.''
              else []) @
             (if filter (\<lambda>m. m \<in> set (map def_name (mcp_active_tools st))) names \<noteq> []
              then '' Errors: '' @
                   join '', '' (map (\<lambda>m. m @ '' already loaded.'')
                     (filter (\<lambda>m. m \<in> set (map def_name (mcp_active_tools st))) names))
              else [])),
        st\<lparr>mcp_active_tools := mcp_active_tools st @
             map (\<lambda>m. mcp_definition (the (mcp_TOOL_REGISTRY st m)))
               (filter (\<lambda>m. m \<notin> set (map def_name (mcp_active_tools st)) \<and>
                  map_option mcp_server (mcp_TOOL_REGISTRY st m) = Some (Some server)) names),
           LOADER_STATE := (LOADER_STATE st)(server \<mapsto>
             entry\<lparr>active_tools := active_tools entry @
               filter (\<lambda>m. m \<notin> set (map def_name (mcp_active_tools st)) \<and>
                  map_option mcp_server (mcp_TOOL_REGISTRY st m) = Some (Some server)) names\<rparr>)\<rparr>)"
  using assms
  by (simp add: mcp_loader_execute_def mcp_activate_strs empty_report_def mcp_response_strs)





text \<open>Registering writes one key of the registry; a run of registrations is a fold.\<close>

lemma fc_Tool_registry:
  "fc_TOOL_REGISTRY (snd (fc_Tool d f s)) =
     (fc_TOOL_REGISTRY s)(def_name d \<mapsto> \<lparr>fc_definition = d, fc_function = f\<rparr>)"
  by (simp add: fc_Tool_def Let_def)

lemma mcp_Tool_registry:
  "mcp_TOOL_REGISTRY (snd (mcp_Tool d f sv s)) =
     (mcp_TOOL_REGISTRY s)(def_name d \<mapsto>
        \<lparr>mcp_definition = d, mcp_function = f, mcp_server = sv\<rparr>)"
  by (simp add: mcp_Tool_def Let_def)

lemma fc_registry_fold:
  "fc_TOOL_REGISTRY (fold (\<lambda>(d, f) s. snd (fc_Tool d f s)) regs st) n =
     (case find (\<lambda>(d, f). def_name d = n) (rev regs) of
        Some (d, f) \<Rightarrow> Some \<lparr>fc_definition = d, fc_function = f\<rparr>
      | None \<Rightarrow> fc_TOOL_REGISTRY st n)"
proof (induction regs rule: rev_induct)
  case Nil
  show ?case by simp
next
  case (snoc x regs)
  obtain d f where x: "x = (d, f)" by (cases x)
  show ?case using snoc.IH by (simp add: x fc_Tool_registry)
qed

lemma mcp_registry_fold:
  "mcp_TOOL_REGISTRY (fold (\<lambda>(d, f, sv) s. snd (mcp_Tool d f sv s)) regs st) n =
     (case find (\<lambda>(d, f, sv). def_name d = n) (rev regs) of
        Some (d, f, sv) \<Rightarrow> Some \<lparr>mcp_definition = d, mcp_function = f, mcp_server = sv\<rparr>
      | None \<Rightarrow> mcp_TOOL_REGISTRY st n)"
proof (induction regs rule: rev_induct)
  case Nil
  show ?case by simp
next
  case (snoc x regs)
  obtain d f sv where x: "x = (d, f, sv)" by (cases x)
  show ?case using snoc.IH by (simp add: x mcp_Tool_registry)
qed

text \<open>The fallback loop of Mode A writes an entry for every requested registered name.\<close>

lemma map_of_dict_set: "map_of (dict_set k v kvs) = (map_of kvs)(k \<mapsto> v)"
  by (induction kvs) (auto simp: fun_eq_iff)

lemma fc_fallback_briefs_covers:
  "map_of (fc_fallback_briefs reg names acc) n =
     (if n \<in> set names \<and> reg n \<noteq> None
      then Some (JStr (fallback_brief (def_description (fc_definition (the (reg n))))))
      else map_of acc n)"
proof (induction names arbitrary: acc)
  case Nil
  show ?case by simp
next
  case (Cons m names)
  show ?case by (cases "reg m") (auto simp: Cons.IH map_of_dict_set)
qed

text \<open>When reading the response raises or its text does not parse, Mode A does return the
  fallback entry of every requested registered name.\<close>

lemma fc_generate_briefs_fallback:
  assumes "n \<in> set names" and "reg n = Some tool"
    and "completion (map fc_definition (List.map_filter reg names)) = Inr r"
    and "r = NoChoices \<or> (\<exists>text. r = Content (Some text) \<and> text \<noteq> [] \<and> loads text = None)"
  shows "\<exists>kvs. fc_generate_briefs completion loads reg names = Inr (JObj kvs) \<and>
           map_of kvs n = Some (JStr (fallback_brief (def_description (fc_definition tool))))"
proof -
  have ne: "names \<noteq> []" using assms(1) by auto
  have "tool \<in> set (List.map_filter reg names)"
    using assms(1,2) by (force simp: List.map_filter_def)
  then have defs: "map fc_definition (List.map_filter reg names) \<noteq> []" by auto
  have "fc_generate_briefs completion loads reg names =
      Inr (JObj (fc_fallback_briefs reg names []))"
    using ne defs assms(3,4) by (auto simp: fc_generate_briefs_def Let_def)
  then show ?thesis
    using assms(1,2) by (simp add: fc_fallback_briefs_covers)
qed

text \<open>
  An unhashable item of the list raises at the lookup in the briefs, after the names
  before it were activated.
\<close>

lemma fc_loader_execute_list_item:
  "fc_loader_execute fc_example_briefs (JArr [JStr ''calculator'', JArr []]) fc_example =
     (Inl TypeError,
      fc_example\<lparr>fc_active_tools :=
        [fc_LOADER_TOOL_DEFINITION ''Dynamic Tool Loader'', CALC_DEFINITION]\<rparr>)"
  by (simp add: fc_loader_execute_def fc_example_simps empty_report_def fc_response_def
      py_join_def)

text \<open>The example behaviours, for evaluation.\<close>

lemmas fc_call_simps =
  fc_example_call_def calculate_execute_def example_eval_def



















section \<open>Properties\<close>

text \<open>
  C10, as stated, fails in its last clause: the loader does raise on malformed input. A
  list that holds a number is collected as failed, and joining the failed list raises
  TypeError.
\<close>

theorem loader_raises_on_number_item:
  "fc_loader_execute fc_example_briefs (JArr [JNum 1]) fc_example = (Inl TypeError, fc_example)"
  by (simp add: fc_loader_execute_def fc_example_simps empty_report_def fc_response_def
      py_join_def)

text \<open>
  C10, amended. For every argument value that is not a list, the Mode A loader returns
  exactly the text "Error: tool_names must be a list of strings." and leaves the whole
  module state (ActiveSet and ToolRegistry included) as it was; on such a value it
  returns and does not raise.
\<close>

theorem fc_loader_execute_not_list:
  assumes "\<not> isinstance_list tool_names"
  shows "fc_loader_execute briefs tool_names st =
           (Inr ''Error: tool_names must be a list of strings.'', st)"
  using assms by (cases tool_names) (simp_all add: fc_loader_execute_def)

text \<open>C10, amended, on a string in place of the list.\<close>

theorem fc_loader_execute_not_list_witness:
  "\<not> isinstance_list (JStr ''calculator'') \<and>
   fc_loader_execute [(''calculator'', JStr ''Does maths.'')] (JStr ''calculator'')
       \<lparr>fc_TOOL_REGISTRY = Map.empty, fc_active_tools = [], fc_messages = []\<rparr> =
     (Inr ''Error: tool_names must be a list of strings.'',
      \<lparr>fc_TOOL_REGISTRY = Map.empty, fc_active_tools = [], fc_messages = []\<rparr>)"
  using fc_loader_execute_not_list [of "JStr ''calculator''"] by simp

text \<open>
  C1. Activating the same not-yet-active name twice in one call should leave it in the
  ActiveSet once and report the second occurrence as a duplicate. The code compares each
  name with the names that were active when the call began, so both occurrences pass the
  check: in either mode the definition is appended twice, both are reported as activated,
  and the ActiveSet then holds the name twice.
\<close>

theorem duplicate_activation_appends_twice:
  "fc_loader_execute fc_example_briefs (JArr [JStr ''calculator'', JStr ''calculator''])
       fc_example =
     (Inr ''Activated tools: calculator, calculator. They are now available for use in the next message.'',
      fc_example\<lparr>fc_active_tools :=
        [fc_LOADER_TOOL_DEFINITION ''Dynamic Tool Loader'', CALC_DEFINITION, CALC_DEFINITION]\<rparr>) \<and>
   mcp_loader_execute (JStr ''load_tools'') JNull
       (JArr [JStr ''search_repositories'', JStr ''search_repositories'']) (JStr ''github'')
       mcp_example_loaded =
     (Inr ''Activated tools from github: search_repositories, search_repositories.'',
      mcp_example_loaded\<lparr>mcp_active_tools :=
          [mcp_LOADER_TOOL_DEFINITION ''Dynamic Tool Loader'', mcp_definition github_tool,
           mcp_definition github_tool],
        LOADER_STATE :=
          [''github'' \<mapsto>
             \<lparr>descriptions_loaded = True, summaries_loaded = True,
              active_tools = [''search_repositories'', ''search_repositories'']\<rparr>]\<rparr>)"
proof
  show "fc_loader_execute fc_example_briefs (JArr [JStr ''calculator'', JStr ''calculator''])
       fc_example =
     (Inr ''Activated tools: calculator, calculator. They are now available for use in the next message.'',
      fc_example\<lparr>fc_active_tools :=
        [fc_LOADER_TOOL_DEFINITION ''Dynamic Tool Loader'', CALC_DEFINITION, CALC_DEFINITION]\<rparr>)"
    by (simp add: fc_loader_execute_def fc_example_simps empty_report_def fc_response_def
        py_join_def)
next
  show "mcp_loader_execute (JStr ''load_tools'') JNull
       (JArr [JStr ''search_repositories'', JStr ''search_repositories'']) (JStr ''github'')
       mcp_example_loaded =
     (Inr ''Activated tools from github: search_repositories, search_repositories.'',
      mcp_example_loaded\<lparr>mcp_active_tools :=
          [mcp_LOADER_TOOL_DEFINITION ''Dynamic Tool Loader'', mcp_definition github_tool,
           mcp_definition github_tool],
        LOADER_STATE :=
          [''github'' \<mapsto>
             \<lparr>descriptions_loaded = True, summaries_loaded = True,
              active_tools = [''search_repositories'', ''search_repositories'']\<rparr>]\<rparr>)"
    by (simp add: mcp_loader_execute_def mcp_example_loaded_eq mcp_example_simps
        empty_report_def mcp_response_def py_join_def)
qed

text \<open>C1: hence the names of the resulting ActiveSet hold the activated name twice.\<close>

theorem duplicate_activation_names_twice:
  "map def_name (fc_active_tools (snd
      (fc_loader_execute fc_example_briefs (JArr [JStr ''calculator'', JStr ''calculator''])
         fc_example))) = [''loader'', ''calculator'', ''calculator''] \<and>
   map def_name (mcp_active_tools (snd
      (mcp_loader_execute (JStr ''load_tools'') JNull
         (JArr [JStr ''search_repositories'', JStr ''search_repositories'']) (JStr ''github'')
         mcp_example_loaded))) = [''loader'', ''search_repositories'', ''search_repositories'']"
  using duplicate_activation_appends_twice
  by (simp add: fc_LOADER_TOOL_DEFINITION_def CALC_DEFINITION_def
      mcp_LOADER_TOOL_DEFINITION_def github_tool_def)

text \<open>
  C2, as stated, fails: the calculator is registered but not in the ActiveSet (only the
  loader is), and the dispatch of Mode A still calls it and appends its result as the
  tool message.
\<close>

theorem dispatch_inactive_tool_executed:
  "''calculator'' \<notin> set (map def_name (fc_active_tools fc_example)) \<and>
   fc_main_tool_call (\<lambda>args. Some (JObj [(''expression'', JStr ''15 * 7'')])) fc_example_call
       fc_example_briefs
       \<lparr>call_id = ''call_1'', call_name = ''calculator'', call_arguments = ''args''\<rparr>
       fc_example =
     (None,
      fc_example\<lparr>fc_messages :=
        [\<lparr>role = ''tool'', tool_call_id = ''call_1'', content = Text ''105''\<rparr>]\<rparr>)"
  by (simp add: fc_main_tool_call_def fc_call_function_def tool_message_def fc_example_simps
      fc_call_simps)

text \<open>
  C2, amended. In both modes the dispatch of a request whose name is not "loader" looks
  the name up in the ToolRegistry only; the ActiveSet is not consulted. A name that is
  not registered yields no tool message and no state change. A registered tool whose
  callable is a function object is called, activated or not, whenever the arguments
  decode to an object; when the call returns, the value it returns, text or not, is
  appended as the tool message of that call, and the module state is the one the call
  left. When the arguments do not decode, or decode to something that is no object, or
  the call raises, an exception leaves the loop and no tool message is appended.
\<close>

theorem dispatch_resolves_by_registry:
  assumes "call_name tc \<noteq> ''loader''"
  shows
    "(fc_TOOL_REGISTRY st (call_name tc) = None \<longrightarrow>
        fc_main_tool_call loads call briefs tc st = (None, st)) \<and>
     (fc_TOOL_REGISTRY st (call_name tc) = Some tool \<and> fc_function tool = Callable r \<and>
      loads (call_arguments tc) = Some (JObj kwargs) \<and> call r kwargs st = (Inr v, st') \<longrightarrow>
        fc_main_tool_call loads call briefs tc st =
          (None, st'\<lparr>fc_messages := fc_messages st @ [tool_message tc v]\<rparr>)) \<and>
     (fc_TOOL_REGISTRY st (call_name tc) = Some tool \<and> fc_function tool = Callable r \<and>
      (loads (call_arguments tc) = None \<or>
       (\<exists>j. loads (call_arguments tc) = Some j \<and> (\<forall>kvs. j \<noteq> JObj kvs)) \<or>
       (\<exists>kvs e. loads (call_arguments tc) = Some (JObj kvs) \<and> fst (call r kvs st) = Inl e)) \<longrightarrow>
        fst (fc_main_tool_call loads call briefs tc st) \<noteq> None \<and>
        fc_messages (snd (fc_main_tool_call loads call briefs tc st)) = fc_messages st) \<and>
     (mcp_TOOL_REGISTRY mst (call_name tc) = None \<longrightarrow>
        mcp_main_tool_call loads describe call_tool mcall tc mst = (None, mst)) \<and>
     (mcp_TOOL_REGISTRY mst (call_name tc) = Some mtool \<and> mcp_function mtool = Callable r \<and>
      loads (call_arguments tc) = Some (JObj kwargs) \<and>
      mcp_apply call_tool mcall r kwargs mst = (Inr v, mst') \<longrightarrow>
        mcp_main_tool_call loads describe call_tool mcall tc mst =
          (None, mst'\<lparr>mcp_messages := mcp_messages mst @ [tool_message tc v]\<rparr>)) \<and>
     (mcp_TOOL_REGISTRY mst (call_name tc) = Some mtool \<and> mcp_function mtool = Callable r \<and>
      (loads (call_arguments tc) = None \<or>
       (\<exists>j. loads (call_arguments tc) = Some j \<and> (\<forall>kvs. j \<noteq> JObj kvs)) \<or>
       (\<exists>kvs e. loads (call_arguments tc) = Some (JObj kvs) \<and>
                fst (mcp_apply call_tool mcall r kvs mst) = Inl e)) \<longrightarrow>
        fst (mcp_main_tool_call loads describe call_tool mcall tc mst) \<noteq> None \<and>
        mcp_messages (snd (mcp_main_tool_call loads describe call_tool mcall tc mst)) =
          mcp_messages mst)"
proof (intro conjI impI)
  show "fc_main_tool_call loads call briefs tc st = (None, st)"
    if "fc_TOOL_REGISTRY st (call_name tc) = None"
    using that assms by (simp add: fc_main_tool_call_def)
  show "fc_main_tool_call loads call briefs tc st =
          (None, st'\<lparr>fc_messages := fc_messages st @ [tool_message tc v]\<rparr>)"
    if "fc_TOOL_REGISTRY st (call_name tc) = Some tool \<and> fc_function tool = Callable r \<and>
      loads (call_arguments tc) = Some (JObj kwargs) \<and> call r kwargs st = (Inr v, st')"
    using that assms by (simp add: fc_main_tool_call_def fc_call_function_def)
  show "mcp_main_tool_call loads describe call_tool mcall tc mst = (None, mst)"
    if "mcp_TOOL_REGISTRY mst (call_name tc) = None"
    using that assms by (simp add: mcp_main_tool_call_def)
  show "mcp_main_tool_call loads describe call_tool mcall tc mst =
          (None, mst'\<lparr>mcp_messages := mcp_messages mst @ [tool_message tc v]\<rparr>)"
    if "mcp_TOOL_REGISTRY mst (call_name tc) = Some mtool \<and> mcp_function mtool = Callable r \<and>
      loads (call_arguments tc) = Some (JObj kwargs) \<and>
      mcp_apply call_tool mcall r kwargs mst = (Inr v, mst')"
    using that assms by (simp add: mcp_main_tool_call_def mcp_call_function_def)
next
  assume a: "fc_TOOL_REGISTRY st (call_name tc) = Some tool \<and> fc_function tool = Callable r \<and>
      (loads (call_arguments tc) = None \<or>
       (\<exists>j. loads (call_arguments tc) = Some j \<and> (\<forall>kvs. j \<noteq> JObj kvs)) \<or>
       (\<exists>kvs e. loads (call_arguments tc) = Some (JObj kvs) \<and> fst (call r kvs st) = Inl e))"
  have "fst (fc_main_tool_call loads call briefs tc st) \<noteq> None \<and>
        fc_messages (snd (fc_main_tool_call loads call briefs tc st)) = fc_messages st"
  proof (cases "loads (call_arguments tc)")
    case None
    then show ?thesis using a assms by (simp add: fc_main_tool_call_def)
  next
    case (Some j)
    show ?thesis
    proof (cases j)
      case (JObj kvs)
      then obtain e where "fst (call r kvs st) = Inl e" using a Some by auto
      then obtain s where "call r kvs st = (Inl e, s)" by (cases "call r kvs st") auto
      then show ?thesis
        using a assms Some JObj by (simp add: fc_main_tool_call_def fc_call_function_def)
    qed (use a assms Some in \<open>simp_all add: fc_main_tool_call_def fc_call_function_def\<close>)
  qed
  then show "fst (fc_main_tool_call loads call briefs tc st) \<noteq> None"
    and "fc_messages (snd (fc_main_tool_call loads call briefs tc st)) = fc_messages st"
    by simp_all
next
  assume a: "mcp_TOOL_REGISTRY mst (call_name tc) = Some mtool \<and> mcp_function mtool = Callable r \<and>
      (loads (call_arguments tc) = None \<or>
       (\<exists>j. loads (call_arguments tc) = Some j \<and> (\<forall>kvs. j \<noteq> JObj kvs)) \<or>
       (\<exists>kvs e. loads (call_arguments tc) = Some (JObj kvs) \<and>
                fst (mcp_apply call_tool mcall r kvs mst) = Inl e))"
  have "fst (mcp_main_tool_call loads describe call_tool mcall tc mst) \<noteq> None \<and>
        mcp_messages (snd (mcp_main_tool_call loads describe call_tool mcall tc mst)) =
          mcp_messages mst"
  proof (cases "loads (call_arguments tc)")
    case None
    then show ?thesis using a assms by (simp add: mcp_main_tool_call_def)
  next
    case (Some j)
    show ?thesis
    proof (cases j)
      case (JObj kvs)
      then obtain e where "fst (mcp_apply call_tool mcall r kvs mst) = Inl e"
        using a Some by auto
      then obtain s where "mcp_apply call_tool mcall r kvs mst = (Inl e, s)"
        by (cases "mcp_apply call_tool mcall r kvs mst") auto
      then show ?thesis
        using a assms Some JObj by (simp add: mcp_main_tool_call_def mcp_call_function_def)
    qed (use a assms Some in \<open>simp_all add: mcp_main_tool_call_def mcp_call_function_def\<close>)
  qed
  then show "fst (mcp_main_tool_call loads describe call_tool mcall tc mst) \<noteq> None"
    and "mcp_messages (snd (mcp_main_tool_call loads describe call_tool mcall tc mst)) =
          mcp_messages mst"
    by simp_all
qed

text \<open>
  C2, amended, at concrete calls: an unregistered name is passed over silently; the
  calculator (Mode A) and the github search tool (Mode B) are called although neither is
  in the ActiveSet; the bash tool of Mode A, once registered, yields a coroutine object
  as the content of its tool message; and undecodable arguments raise.
\<close>

theorem dispatch_resolves_by_registry_witness:
  "call_name \<lparr>call_id = ''call_1'', call_name = ''calculator'', call_arguments = ''args''\<rparr>
     \<noteq> ''loader'' \<and>
   fc_TOOL_REGISTRY fc_example ''bogus'' = None \<and>
   fc_main_tool_call (\<lambda>args. Some (JObj [(''expression'', JStr ''15 * 7'')])) fc_example_call
       fc_example_briefs
       \<lparr>call_id = ''call_2'', call_name = ''bogus'', call_arguments = ''args''\<rparr> fc_example =
     (None, fc_example) \<and>
   ''calculator'' \<notin> set (map def_name (fc_active_tools fc_example)) \<and>
   fc_main_tool_call (\<lambda>args. Some (JObj [(''expression'', JStr ''15 * 7'')])) fc_example_call
       fc_example_briefs
       \<lparr>call_id = ''call_1'', call_name = ''calculator'', call_arguments = ''args''\<rparr>
       fc_example =
     (None,
      fc_example\<lparr>fc_messages := fc_messages fc_example @
        [tool_message \<lparr>call_id = ''call_1'', call_name = ''calculator'', call_arguments = ''args''\<rparr>
           (Text ''105'')]\<rparr>) \<and>
   fc_main_tool_call (\<lambda>args. Some (JObj [(''command'', JStr ''ls'')])) fc_example_call
       fc_example_briefs
       \<lparr>call_id = ''call_3'', call_name = ''bash'', call_arguments = ''args''\<rparr>
       (snd (fc_Tool BASH_DEFINITION (Callable (Local ''bash_execute'')) fc_example)) =
     (None,
      (snd (fc_Tool BASH_DEFINITION (Callable (Local ''bash_execute'')) fc_example))
        \<lparr>fc_messages := fc_messages fc_example @
          [tool_message \<lparr>call_id = ''call_3'', call_name = ''bash'', call_arguments = ''args''\<rparr>
             (Coroutine (Local ''bash_execute''))]\<rparr>) \<and>
   fst (fc_main_tool_call (\<lambda>args. None) fc_example_call fc_example_briefs
       \<lparr>call_id = ''call_1'', call_name = ''calculator'', call_arguments = ''args''\<rparr>
       fc_example) \<noteq> None \<and>
   mcp_TOOL_REGISTRY mcp_example ''bogus'' = None \<and>
   mcp_main_tool_call (\<lambda>args. Some (JObj [(''query'', JStr ''user:me'')])) (\<lambda>ls. Inr ''text'')
       example_call_tool mcp_no_local
       \<lparr>call_id = ''call_2'', call_name = ''bogus'', call_arguments = ''args''\<rparr> mcp_example =
     (None, mcp_example) \<and>
   ''search_repositories'' \<notin> set (map def_name (mcp_active_tools mcp_example)) \<and>
   mcp_main_tool_call (\<lambda>args. Some (JObj [(''query'', JStr ''user:me'')])) (\<lambda>ls. Inr ''text'')
       example_call_tool mcp_no_local
       \<lparr>call_id = ''call_1'', call_name = ''search_repositories'', call_arguments = ''args''\<rparr>
       mcp_example =
     (None,
      mcp_example\<lparr>mcp_messages := mcp_messages mcp_example @
        [tool_message
           \<lparr>call_id = ''call_1'', call_name = ''search_repositories'', call_arguments = ''args''\<rparr>
           (Text ''5 repositories'')]\<rparr>) \<and>
   fst (mcp_main_tool_call (\<lambda>args. None) (\<lambda>ls. Inr ''text'') example_call_tool mcp_no_local
       \<lparr>call_id = ''call_1'', call_name = ''search_repositories'', call_arguments = ''args''\<rparr>
       mcp_example) \<noteq> None"
proof -
  let ?calc = "\<lparr>call_id = ''call_1'', call_name = ''calculator'', call_arguments = ''args''\<rparr>"
  let ?bogus = "\<lparr>call_id = ''call_2'', call_name = ''bogus'', call_arguments = ''args''\<rparr>"
  let ?bash = "\<lparr>call_id = ''call_3'', call_name = ''bash'', call_arguments = ''args''\<rparr>"
  let ?search =
    "\<lparr>call_id = ''call_1'', call_name = ''search_repositories'', call_arguments = ''args''\<rparr>"
  let ?withbash = "snd (fc_Tool BASH_DEFINITION (Callable (Local ''bash_execute'')) fc_example)"
  have n: "call_name ?calc \<noteq> ''loader''" "call_name ?bogus \<noteq> ''loader''"
    "call_name ?bash \<noteq> ''loader''" "call_name ?search \<noteq> ''loader''"
    by simp_all
  have w1: "fc_TOOL_REGISTRY fc_example ''bogus'' = None \<and>
      fc_main_tool_call (\<lambda>args. Some (JObj [(''expression'', JStr ''15 * 7'')])) fc_example_call
        fc_example_briefs ?bogus fc_example = (None, fc_example)"
    using dispatch_resolves_by_registry
      [OF n(2), where st = fc_example
         and loads = "\<lambda>args. Some (JObj [(''expression'', JStr ''15 * 7'')])"
         and call = fc_example_call and briefs = fc_example_briefs]
    by (simp add: fc_example_def)
  have w2: "fc_main_tool_call (\<lambda>args. Some (JObj [(''expression'', JStr ''15 * 7'')]))
        fc_example_call fc_example_briefs ?calc fc_example =
      (None, fc_example\<lparr>fc_messages := fc_messages fc_example @
         [tool_message ?calc (Text ''105'')]\<rparr>)"
    using dispatch_resolves_by_registry
      [OF n(1), where st = fc_example
         and loads = "\<lambda>args. Some (JObj [(''expression'', JStr ''15 * 7'')])"
         and call = fc_example_call and briefs = fc_example_briefs
         and tool = "\<lparr>fc_definition = CALC_DEFINITION,
                       fc_function = Callable (Local ''calculate_execute'')\<rparr>"
         and r = "Local ''calculate_execute''"
         and kwargs = "[(''expression'', JStr ''15 * 7'')]"
         and v = "Text ''105''" and st' = fc_example]
    by (simp add: fc_example_def fc_call_simps)
  have w3: "fc_main_tool_call (\<lambda>args. Some (JObj [(''command'', JStr ''ls'')])) fc_example_call
        fc_example_briefs ?bash ?withbash =
      (None, ?withbash\<lparr>fc_messages := fc_messages fc_example @
         [tool_message ?bash (Coroutine (Local ''bash_execute''))]\<rparr>)"
    using dispatch_resolves_by_registry
      [OF n(3), where st = ?withbash
         and loads = "\<lambda>args. Some (JObj [(''command'', JStr ''ls'')])"
         and call = fc_example_call and briefs = fc_example_briefs
         and tool = "\<lparr>fc_definition = BASH_DEFINITION,
                       fc_function = Callable (Local ''bash_execute'')\<rparr>"
         and r = "Local ''bash_execute''"
         and kwargs = "[(''command'', JStr ''ls'')]"
         and v = "Coroutine (Local ''bash_execute'')" and st' = ?withbash]
    by (simp add: fc_Tool_def Let_def fc_example_def fc_call_simps BASH_DEFINITION_def)
  have w4: "fst (fc_main_tool_call (\<lambda>args. None) fc_example_call fc_example_briefs ?calc
        fc_example) \<noteq> None"
    using dispatch_resolves_by_registry
      [OF n(1), where st = fc_example and loads = "\<lambda>args. None"
         and call = fc_example_call and briefs = fc_example_briefs
         and tool = "\<lparr>fc_definition = CALC_DEFINITION,
                       fc_function = Callable (Local ''calculate_execute'')\<rparr>"
         and r = "Local ''calculate_execute''"]
    by (simp add: fc_example_def)
  have w5: "mcp_TOOL_REGISTRY mcp_example ''bogus'' = None \<and>
      mcp_main_tool_call (\<lambda>args. Some (JObj [(''query'', JStr ''user:me'')])) (\<lambda>ls. Inr ''text'')
        example_call_tool mcp_no_local ?bogus mcp_example = (None, mcp_example)"
    using dispatch_resolves_by_registry
      [OF n(2), where mst = mcp_example
         and loads = "\<lambda>args. Some (JObj [(''query'', JStr ''user:me'')])"
         and describe = "\<lambda>ls. Inr ''text''" and call_tool = example_call_tool
         and mcall = mcp_no_local]
    by (simp add: mcp_example_def)
  have w6: "mcp_main_tool_call (\<lambda>args. Some (JObj [(''query'', JStr ''user:me'')]))
        (\<lambda>ls. Inr ''text'') example_call_tool mcp_no_local ?search mcp_example =
      (None, mcp_example\<lparr>mcp_messages := mcp_messages mcp_example @
         [tool_message ?search (Text ''5 repositories'')]\<rparr>)"
    using dispatch_resolves_by_registry
      [OF n(4), where mst = mcp_example
         and loads = "\<lambda>args. Some (JObj [(''query'', JStr ''user:me'')])"
         and describe = "\<lambda>ls. Inr ''text''" and call_tool = example_call_tool
         and mcall = mcp_no_local and mtool = github_tool
         and r = "Remote ''github'' ''search_repositories''"
         and kwargs = "[(''query'', JStr ''user:me'')]"
         and v = "Text ''5 repositories''" and mst' = mcp_example]
    by (simp add: mcp_example_def github_tool_def mcp_apply_def example_call_tool_def)
  have w7: "fst (mcp_main_tool_call (\<lambda>args. None) (\<lambda>ls. Inr ''text'') example_call_tool
        mcp_no_local ?search mcp_example) \<noteq> None"
    using dispatch_resolves_by_registry
      [OF n(4), where mst = mcp_example and loads = "\<lambda>args. None"
         and describe = "\<lambda>ls. Inr ''text''" and call_tool = example_call_tool
         and mcall = mcp_no_local and mtool = github_tool
         and r = "Remote ''github'' ''search_repositories''"]
    by (simp add: mcp_example_def github_tool_def)
  have a1: "''calculator'' \<notin> set (map def_name (fc_active_tools fc_example))"
    by (simp add: fc_example_simps)
  have a2: "''search_repositories'' \<notin> set (map def_name (mcp_active_tools mcp_example))"
    by (simp add: mcp_example_simps)
  show ?thesis
    using n(1) w1 w2 w3 w4 w5 w6 w7 a1 a2 by blast
qed

text \<open>
  C3, as stated, fails when a recognized server precedes the unknown one: the loop has
  already set the flag of github when it reaches figma and returns the error.
\<close>

theorem load_summaries_marks_before_failing:
  "map_option summaries_loaded (LOADER_STATE mcp_example ''github'') = Some False \<and>
   mcp_loader_execute (JStr ''load_tool_summaries'') (JArr [JStr ''github'', JStr ''figma''])
       JNull JNull mcp_example =
     (Inr ''Error: server figma not recognized'',
      mcp_example\<lparr>LOADER_STATE :=
        [''github'' \<mapsto>
           \<lparr>descriptions_loaded = True, summaries_loaded = True, active_tools = []\<rparr>]\<rparr>)"
  by (simp add: mcp_loader_execute_def mcp_example_simps)

text \<open>
  C3, amended. When the servers list holds registered names \<open>pre\<close> followed by a name
  \<open>u\<close> that is not registered, \<^verbatim>\<open>load_tool_summaries\<close> returns the "server not
  recognized" error for \<open>u\<close>; the servers of \<open>pre\<close> have their
  \<^verbatim>\<open>summaries_loaded\<close> flag set, and nothing else changes: every other flag, every
  \<^verbatim>\<open>active_tools\<close> list, the registry and the ActiveSet are as before. When the
  unknown name comes first, the whole state is unchanged.
\<close>

theorem load_summaries_unknown_server:
  assumes "set pre \<subseteq> dom (LOADER_STATE st)" and "u \<notin> dom (LOADER_STATE st)"
  shows
    "mcp_loader_execute (JStr ''load_tool_summaries'') (JArr (map JStr (pre @ u # post)))
        tools server st =
       (Inr (''Error: server '' @ u @ '' not recognized''),
        st\<lparr>LOADER_STATE :=
             (\<lambda>k. if k \<in> set pre
                  then map_option (\<lambda>e. e\<lparr>summaries_loaded := True\<rparr>) (LOADER_STATE st k)
                  else LOADER_STATE st k)\<rparr>) \<and>
     mcp_loader_execute (JStr ''load_tool_summaries'') (JArr (map JStr (u # post)))
        tools server st =
       (Inr (''Error: server '' @ u @ '' not recognized''), st)"
proof -
  have none: "LOADER_STATE st u = None" using assms(2) by auto
  have tail: "mcp_load_summaries (JStr u # map JStr post) acc ls =
      (Inr (Some (''Error: server '' @ u @ '' not recognized'')), acc @ [JStr u], ls)"
    if "ls u = None" for acc ls
    using that by simp
  have marked_u: "(if u \<in> set pre
        then map_option (\<lambda>e. e\<lparr>summaries_loaded := True\<rparr>) (LOADER_STATE st u)
        else LOADER_STATE st u) = None"
    using none by simp
  have first: "mcp_load_summaries (map JStr pre @ JStr u # map JStr post) [] (LOADER_STATE st) =
      (Inr (Some (''Error: server '' @ u @ '' not recognized'')), map JStr pre @ [JStr u],
       (\<lambda>k. if k \<in> set pre
            then map_option (\<lambda>e. e\<lparr>summaries_loaded := True\<rparr>) (LOADER_STATE st k)
            else LOADER_STATE st k))"
    using mcp_load_summaries_known [OF assms(1), of "JStr u # map JStr post" "[]"]
      tail [where ls = "\<lambda>k. if k \<in> set pre
            then map_option (\<lambda>e. e\<lparr>summaries_loaded := True\<rparr>) (LOADER_STATE st k)
            else LOADER_STATE st k" and acc = "map JStr pre", OF marked_u] by simp
  have second: "mcp_load_summaries (JStr u # map JStr post) [] (LOADER_STATE st) =
      (Inr (Some (''Error: server '' @ u @ '' not recognized'')), [JStr u], LOADER_STATE st)"
    using tail [where ls = "LOADER_STATE st" and acc = "[]", OF none] by simp
  show ?thesis
    by (simp add: mcp_loader_execute_def first second del: mcp_load_summaries.simps)
qed

text \<open>C3, amended, with github registered and figma not.\<close>

theorem load_summaries_unknown_server_witness:
  "set [''github''] \<subseteq> dom (LOADER_STATE mcp_example) \<and>
   ''figma'' \<notin> dom (LOADER_STATE mcp_example) \<and>
   mcp_loader_execute (JStr ''load_tool_summaries'')
       (JArr (map JStr ([''github''] @ ''figma'' # []))) JNull JNull mcp_example =
     (Inr ''Error: server figma not recognized'',
      mcp_example\<lparr>LOADER_STATE :=
        (\<lambda>k. if k \<in> set [''github'']
             then map_option (\<lambda>e. e\<lparr>summaries_loaded := True\<rparr>) (LOADER_STATE mcp_example k)
             else LOADER_STATE mcp_example k)\<rparr>) \<and>
   mcp_loader_execute (JStr ''load_tool_summaries'') (JArr (map JStr (''figma'' # [])))
       JNull JNull mcp_example =
     (Inr ''Error: server figma not recognized'', mcp_example)"
proof -
  have a: "set [''github''] \<subseteq> dom (LOADER_STATE mcp_example)"
    by (simp add: mcp_example_def)
  have b: "''figma'' \<notin> dom (LOADER_STATE mcp_example)"
    by (simp add: mcp_example_def)
  show ?thesis
    using a b load_summaries_unknown_server [OF a b, of "[]" JNull JNull] by simp
qed

text \<open>
  C5, as stated, fails for a call with an empty tools list: the guard on the arguments
  comes first, so the error is the one about required arguments, not the one about
  summaries.
\<close>

theorem load_tools_empty_list_other_error:
  "map_option summaries_loaded (LOADER_STATE mcp_example ''github'') = Some False \<and>
   mcp_loader_execute (JStr ''load_tools'') JNull (JArr []) (JStr ''github'') mcp_example =
     (Inr ''Error: tools list and server are required for load_tools action.'', mcp_example)"
  by (simp add: mcp_loader_execute_def mcp_example_simps)

text \<open>
  C5, amended. For a server whose \<^verbatim>\<open>summaries_loaded\<close> flag is false, every
  \<^verbatim>\<open>load_tools\<close> call for it returns an error text and leaves the whole state
  unchanged; the error is "summaries must be loaded first" when the tools argument is
  non-empty (truthy) and the server name is not the empty string, and the "tools list
  and server are required" error otherwise.
\<close>

theorem load_tools_before_summaries:
  assumes "LOADER_STATE st server = Some entry" and "\<not> summaries_loaded entry"
  shows
    "mcp_loader_execute (JStr ''load_tools'') servers tools (JStr server) st =
       (if truthy tools \<and> server \<noteq> []
        then Inr (''Error: Tool summaries for '' @ server @ '' must be loaded first.'')
        else Inr ''Error: tools list and server are required for load_tools action.'',
        st)"
  using assms by (simp add: mcp_loader_execute_def summaries_first_def)

text \<open>C5, amended, on the github server before its summaries are loaded.\<close>

theorem load_tools_before_summaries_witness:
  "LOADER_STATE mcp_example ''github'' =
     Some \<lparr>descriptions_loaded = True, summaries_loaded = False, active_tools = []\<rparr> \<and>
   \<not> summaries_loaded \<lparr>descriptions_loaded = True, summaries_loaded = False, active_tools = []\<rparr> \<and>
   mcp_loader_execute (JStr ''load_tools'') JNull (JArr [JStr ''search_repositories''])
       (JStr ''github'') mcp_example =
     (Inr ''Error: Tool summaries for github must be loaded first.'', mcp_example)"
proof -
  have a: "LOADER_STATE mcp_example ''github'' =
     Some \<lparr>descriptions_loaded = True, summaries_loaded = False, active_tools = []\<rparr>"
    by (simp add: mcp_example_def)
  have b: "\<not> summaries_loaded
      \<lparr>descriptions_loaded = True, summaries_loaded = False, active_tools = []\<rparr>"
    by simp
  show ?thesis
    using a load_tools_before_summaries [OF a b, of JNull "JArr [JStr ''search_repositories'']"]
    by simp
qed

text \<open>
  C6, as stated, fails for a name that is unknown to the catalogue but already in the
  ActiveSet: the loader itself is not in the brief set, and activating it is reported as
  a duplicate under "Errors", while the failed list stays empty.
\<close>

theorem activate_loader_is_duplicate_not_failed:
  "''loader'' \<notin> fst ` set fc_example_briefs \<and>
   fc_activate fc_example_briefs (fc_TOOL_REGISTRY fc_example)
       (map def_name (fc_active_tools fc_example)) [JStr ''loader''] empty_report
       (fc_active_tools fc_example) =
     (None, \<lparr>activated = [], failed = [], errors = [''loader already loaded.'']\<rparr>,
      fc_active_tools fc_example) \<and>
   fc_loader_execute fc_example_briefs (JArr [JStr ''loader'']) fc_example =
     (Inr ''No tools activated. They are now available for use in the next message.Errors: loader already loaded.'',
      fc_example)"
  by (simp add: fc_loader_execute_def fc_example_simps empty_report_def fc_response_def
      py_join_def)

text \<open>
  C6, amended. Take an activation call on a list of names that reaches the per-name
  loop (Mode A: any list; Mode B: \<^verbatim>\<open>load_tools\<close> with a non-empty server name
  whose summaries are loaded and which has a manager), and a name \<open>n\<close> of the list
  that is unknown to the catalogue (not in the brief set, respectively not a registered
  tool of that server) and not in the ActiveSet when the call begins. Then \<open>n\<close> is in
  the failed list, which the response text reports; the call returns that text and does
  not raise; and the resulting ActiveSet (and the server's \<^verbatim>\<open>active_tools\<close>) is the
  old one extended by the known, not yet active names only, which \<open>n\<close> is not among.
\<close>

theorem activate_unknown_name_fails:
  fixes st :: fc_state and mst :: mcp_state and names :: "string list"
    and briefs :: "(string \<times> json) list" and server :: string
  defines "fc_known \<equiv> filter (\<lambda>m. m \<notin> set (map def_name (fc_active_tools st)) \<and>
              m \<in> fst ` set briefs \<and> fc_TOOL_REGISTRY st m \<noteq> None) names"
    and "fc_unknown \<equiv> filter (\<lambda>m. m \<notin> set (map def_name (fc_active_tools st)) \<and>
              \<not> (m \<in> fst ` set briefs \<and> fc_TOOL_REGISTRY st m \<noteq> None)) names"
    and "fc_dup \<equiv> filter (\<lambda>m. m \<in> set (map def_name (fc_active_tools st))) names"
    and "mcp_known \<equiv> filter (\<lambda>m. m \<notin> set (map def_name (mcp_active_tools mst)) \<and>
              map_option mcp_server (mcp_TOOL_REGISTRY mst m) = Some (Some server)) names"
    and "mcp_unknown \<equiv> filter (\<lambda>m. m \<notin> set (map def_name (mcp_active_tools mst)) \<and>
              map_option mcp_server (mcp_TOOL_REGISTRY mst m) \<noteq> Some (Some server)) names"
    and "mcp_dup \<equiv> filter (\<lambda>m. m \<in> set (map def_name (mcp_active_tools mst))) names"
  assumes "n \<in> set names"
  shows
    "(n \<notin> fst ` set briefs \<and> n \<notin> set (map def_name (fc_active_tools st)) \<longrightarrow>
        n \<in> set fc_unknown \<and> n \<notin> set fc_known \<and>
        fc_loader_execute briefs (JArr (map JStr names)) st =
          (Inr ((if fc_known \<noteq> [] then ''Activated tools: '' @ join '', '' fc_known @ ''.''
                 else ''No tools activated.'') @
                '' Failed to activate: '' @ join '', '' fc_unknown @ ''.'' @
                '' They are now available for use in the next message.'' @
                (if fc_dup \<noteq> []
                 then ''Errors: '' @ join '', '' (map (\<lambda>m. m @ '' already loaded.'') fc_dup)
                 else [])),
           st\<lparr>fc_active_tools := fc_active_tools st @
                map (\<lambda>m. fc_definition (the (fc_TOOL_REGISTRY st m))) fc_known\<rparr>)) \<and>
     (map_option mcp_server (mcp_TOOL_REGISTRY mst n) \<noteq> Some (Some server) \<and>
      n \<notin> set (map def_name (mcp_active_tools mst)) \<and> server \<noteq> [] \<and>
      LOADER_STATE mst server = Some entry \<and> summaries_loaded entry \<and>
      MCP_SERVER_MANAGERS mst server = Some m \<longrightarrow>
        n \<in> set mcp_unknown \<and> n \<notin> set mcp_known \<and>
        mcp_loader_execute (JStr ''load_tools'') servers (JArr (map JStr names)) (JStr server) mst =
          (Inr ((if mcp_known \<noteq> []
                 then ''Activated tools from '' @ server @ '': '' @ join '', '' mcp_known @ ''.''
                 else ''No tools activated from '' @ server @ ''.'') @
                '' Failed: '' @ join '', '' mcp_unknown @ ''.'' @
                (if mcp_dup \<noteq> []
                 then '' Errors: '' @ join '', '' (map (\<lambda>m. m @ '' already loaded.'') mcp_dup)
                 else [])),
           mst\<lparr>mcp_active_tools := mcp_active_tools mst @
                 map (\<lambda>m. mcp_definition (the (mcp_TOOL_REGISTRY mst m))) mcp_known,
               LOADER_STATE := (LOADER_STATE mst)(server \<mapsto>
                 entry\<lparr>active_tools := active_tools entry @ mcp_known\<rparr>)\<rparr>))"
proof (intro conjI impI)
  assume a: "n \<notin> fst ` set briefs \<and> n \<notin> set (map def_name (fc_active_tools st))"
  show in_unknown: "n \<in> set fc_unknown"
    using a assms(7) by (simp add: fc_unknown_def)
  show "n \<notin> set fc_known"
    using a by (simp add: fc_known_def)
  have ne: "fc_unknown \<noteq> []" using in_unknown by auto
  show "fc_loader_execute briefs (JArr (map JStr names)) st =
          (Inr ((if fc_known \<noteq> [] then ''Activated tools: '' @ join '', '' fc_known @ ''.''
                 else ''No tools activated.'') @
                '' Failed to activate: '' @ join '', '' fc_unknown @ ''.'' @
                '' They are now available for use in the next message.'' @
                (if fc_dup \<noteq> []
                 then ''Errors: '' @ join '', '' (map (\<lambda>m. m @ '' already loaded.'') fc_dup)
                 else [])),
           st\<lparr>fc_active_tools := fc_active_tools st @
                map (\<lambda>m. fc_definition (the (fc_TOOL_REGISTRY st m))) fc_known\<rparr>)"
    using ne unfolding fc_known_def fc_unknown_def fc_dup_def
    by (simp add: fc_loader_execute_strs)
next
  assume b: "map_option mcp_server (mcp_TOOL_REGISTRY mst n) \<noteq> Some (Some server) \<and>
      n \<notin> set (map def_name (mcp_active_tools mst)) \<and> server \<noteq> [] \<and>
      LOADER_STATE mst server = Some entry \<and> summaries_loaded entry \<and>
      MCP_SERVER_MANAGERS mst server = Some m"
  show in_unknown: "n \<in> set mcp_unknown"
    using b assms(7) by (simp add: mcp_unknown_def)
  show "n \<notin> set mcp_known"
    using b by (simp add: mcp_known_def)
  have ne: "mcp_unknown \<noteq> []" using in_unknown by auto
  have names: "names \<noteq> []" using assms(7) by auto
  show "mcp_loader_execute (JStr ''load_tools'') servers (JArr (map JStr names)) (JStr server) mst =
          (Inr ((if mcp_known \<noteq> []
                 then ''Activated tools from '' @ server @ '': '' @ join '', '' mcp_known @ ''.''
                 else ''No tools activated from '' @ server @ ''.'') @
                '' Failed: '' @ join '', '' mcp_unknown @ ''.'' @
                (if mcp_dup \<noteq> []
                 then '' Errors: '' @ join '', '' (map (\<lambda>m. m @ '' already loaded.'') mcp_dup)
                 else [])),
           mst\<lparr>mcp_active_tools := mcp_active_tools mst @
                 map (\<lambda>m. mcp_definition (the (mcp_TOOL_REGISTRY mst m))) mcp_known,
               LOADER_STATE := (LOADER_STATE mst)(server \<mapsto>
                 entry\<lparr>active_tools := active_tools entry @ mcp_known\<rparr>)\<rparr>)"
    using ne b names unfolding mcp_known_def mcp_unknown_def mcp_dup_def
    by (simp add: mcp_load_tools_strs [where m = m])
qed

text \<open>
  C6, amended, on the example of the specification: with calculator and get_weather in
  the catalogue, activating calculator and bogus reports calculator activated and bogus
  failed and leaves the ActiveSet as loader, calculator; likewise for the github server
  in Mode B.
\<close>

theorem activate_unknown_name_fails_witness:
  "''bogus'' \<in> set [''calculator'', ''bogus''] \<and>
   ''bogus'' \<notin> fst ` set fc_example_briefs \<and>
   ''bogus'' \<notin> set (map def_name (fc_active_tools fc_example)) \<and>
   fc_loader_execute fc_example_briefs (JArr (map JStr [''calculator'', ''bogus''])) fc_example =
     (Inr ''Activated tools: calculator. Failed to activate: bogus. They are now available for use in the next message.'',
      fc_example\<lparr>fc_active_tools :=
        [fc_LOADER_TOOL_DEFINITION ''Dynamic Tool Loader'', CALC_DEFINITION]\<rparr>) \<and>
   map_option mcp_server (mcp_TOOL_REGISTRY mcp_example_loaded ''bogus'') \<noteq> Some (Some ''github'') \<and>
   ''bogus'' \<notin> set (map def_name (mcp_active_tools mcp_example_loaded)) \<and>
   map_option summaries_loaded (LOADER_STATE mcp_example_loaded ''github'') = Some True \<and>
   MCP_SERVER_MANAGERS mcp_example_loaded ''github'' \<noteq> None \<and>
   mcp_loader_execute (JStr ''load_tools'') JNull
       (JArr (map JStr [''search_repositories'', ''bogus''])) (JStr ''github'')
       mcp_example_loaded =
     (Inr ''Activated tools from github: search_repositories. Failed: bogus.'',
      mcp_example_loaded\<lparr>mcp_active_tools :=
          [mcp_LOADER_TOOL_DEFINITION ''Dynamic Tool Loader'', mcp_definition github_tool],
        LOADER_STATE :=
          [''github'' \<mapsto>
             \<lparr>descriptions_loaded = True, summaries_loaded = True,
              active_tools = [''search_repositories'']\<rparr>]\<rparr>)"
  using
    activate_unknown_name_fails
      [where n = "''bogus''" and names = "[''calculator'', ''bogus'']"
         and briefs = fc_example_briefs and st = fc_example and mst = mcp_example_loaded
         and server = "''github''"
         and entry = "\<lparr>descriptions_loaded = True, summaries_loaded = True, active_tools = []\<rparr>"
         and m = "\<lparr>mgr_server_name = ''github'', mgr_server_config = snd (hd MCP_SERVERS),
                   mgr_session = True, mgr_tools = [search_repositories]\<rparr>"
         and servers = JNull]
    activate_unknown_name_fails
      [where n = "''bogus''" and names = "[''search_repositories'', ''bogus'']"
         and briefs = fc_example_briefs and st = fc_example and mst = mcp_example_loaded
         and server = "''github''"
         and entry = "\<lparr>descriptions_loaded = True, summaries_loaded = True, active_tools = []\<rparr>"
         and m = "\<lparr>mgr_server_name = ''github'', mgr_server_config = snd (hd MCP_SERVERS),
                   mgr_session = True, mgr_tools = [search_repositories]\<rparr>"
         and servers = JNull]
  by (simp add: fc_example_simps mcp_example_loaded_eq mcp_example_simps)




text \<open>
  C9. The ToolRegistry is last-write-wins. After any sequence of registrations (each one
  the construction of a Tool, in either mode), looking a name up returns the binding of
  the last registration under that name, and the earlier binding when no registration of
  the sequence used the name; registering under an existing name succeeds and replaces
  the binding, so that the lookup returns the object just built.
\<close>

theorem registry_last_write_wins:
  "fc_TOOL_REGISTRY (fold (\<lambda>(d, f) s. snd (fc_Tool d f s)) regs st) n =
     (case find (\<lambda>(d, f). def_name d = n) (rev regs) of
        Some (d, f) \<Rightarrow> Some \<lparr>fc_definition = d, fc_function = f\<rparr>
      | None \<Rightarrow> fc_TOOL_REGISTRY st n) \<and>
   mcp_TOOL_REGISTRY (fold (\<lambda>(d, f, sv) s. snd (mcp_Tool d f sv s)) mregs mst) n =
     (case find (\<lambda>(d, f, sv). def_name d = n) (rev mregs) of
        Some (d, f, sv) \<Rightarrow> Some \<lparr>mcp_definition = d, mcp_function = f, mcp_server = sv\<rparr>
      | None \<Rightarrow> mcp_TOOL_REGISTRY mst n) \<and>
   fc_TOOL_REGISTRY (snd (fc_Tool d2 f2 (snd (fc_Tool d1 f1 st)))) (def_name d2) =
     Some (fst (fc_Tool d2 f2 (snd (fc_Tool d1 f1 st)))) \<and>
   fst (fc_Tool d2 f2 (snd (fc_Tool d1 f1 st))) = \<lparr>fc_definition = d2, fc_function = f2\<rparr> \<and>
   mcp_TOOL_REGISTRY (snd (mcp_Tool d2 f2 sv2 (snd (mcp_Tool d1 f1 sv1 mst)))) (def_name d2) =
     Some (fst (mcp_Tool d2 f2 sv2 (snd (mcp_Tool d1 f1 sv1 mst)))) \<and>
   fst (mcp_Tool d2 f2 sv2 (snd (mcp_Tool d1 f1 sv1 mst))) =
     \<lparr>mcp_definition = d2, mcp_function = f2, mcp_server = sv2\<rparr>"
  by (simp add: fc_registry_fold mcp_registry_fold fc_Tool_registry mcp_Tool_registry)
    (simp add: fc_Tool_def mcp_Tool_def Let_def)

text \<open>C9 on three registrations, the third under the name of the first.\<close>

theorem registry_overwrite_example:
  "fc_TOOL_REGISTRY
     (fold (\<lambda>(d, f) s. snd (fc_Tool d f s))
        [(CALC_DEFINITION, Callable (Local ''calculate_execute'')),
         (WEATHER_DEFINITION, Callable (Local ''get_weather_execute'')),
         (CALC_DEFINITION\<lparr>def_description := ''Second calculator.''\<rparr>, LoaderExecute)]
        fc_example) ''calculator'' =
     Some \<lparr>fc_definition = CALC_DEFINITION\<lparr>def_description := ''Second calculator.''\<rparr>,
           fc_function = LoaderExecute\<rparr>"
  using registry_last_write_wins
    [where regs = "[(CALC_DEFINITION, Callable (Local ''calculate_execute'')),
         (WEATHER_DEFINITION, Callable (Local ''get_weather_execute'')),
         (CALC_DEFINITION\<lparr>def_description := ''Second calculator.''\<rparr>, LoaderExecute)]"
       and st = fc_example and n = "''calculator''"]
  by (simp add: CALC_DEFINITION_def WEATHER_DEFINITION_def)




text \<open>
  C4. The brief generation should return an entry for every requested name whatever the
  summarizer does. In Mode A the fallback runs only when reading or parsing the response
  raises: an empty response text (or none) falls off the end of the function, which
  returns None, and a response that parses is returned as it is, with the entries it
  happens to have. In Mode B the fallback does run on an empty response, but it looks the
  registry up with the tool objects, not their names, so it yields no entry at all (or
  raises).
\<close>

theorem generate_briefs_misses_names:
  "fc_generate_briefs (\<lambda>defs. Inr (Content (Some []))) (\<lambda>text. None)
       (fc_TOOL_REGISTRY fc_example) [''calculator'', ''get_weather''] = Inr JNull \<and>
   fc_generate_briefs (\<lambda>defs. Inr (Content None)) (\<lambda>text. None)
       (fc_TOOL_REGISTRY fc_example) [''calculator'', ''get_weather''] = Inr JNull \<and>
   fc_generate_briefs (\<lambda>defs. Inr (Content (Some ''only the calculator'')))
       (\<lambda>text. Some (JObj [(''calculator'', JStr ''Does maths.'')]))
       (fc_TOOL_REGISTRY fc_example) [''calculator'', ''get_weather''] =
     Inr (JObj [(''calculator'', JStr ''Does maths.'')]) \<and>
   mcp_generate_briefs (\<lambda>name defs. Inr (Content None)) (\<lambda>text. None) True
       (mcp_TOOL_REGISTRY mcp_example) [search_repositories] ''github'' =
     Inr (JObj [(''server_summary'',
                 JStr ''github MCP server provides various tools for specific tasks.''),
                (''tool_briefs'', JObj [])]) \<and>
   mcp_generate_briefs (\<lambda>name defs. Inr (Content None)) (\<lambda>text. None) False
       (mcp_TOOL_REGISTRY mcp_example) [search_repositories] ''github'' = Inl TypeError"
  by (simp add: fc_generate_briefs_def mcp_generate_briefs_def List.map_filter_def
      fc_example_simps mcp_example_simps Let_def)

text \<open>C4: on the empty response the result of Mode A is no mapping at all, although both
  requested names are registered.\<close>

theorem generate_briefs_misses_names_witness:
  "(\<forall>kvs. fc_generate_briefs (\<lambda>defs. Inr (Content (Some []))) (\<lambda>text. None)
       (fc_TOOL_REGISTRY fc_example) [''calculator'', ''get_weather''] \<noteq> Inr (JObj kvs)) \<and>
   ''calculator'' \<in> dom (fc_TOOL_REGISTRY fc_example) \<and>
   ''get_weather'' \<in> dom (fc_TOOL_REGISTRY fc_example)"
  using generate_briefs_misses_names by (simp add: fc_example_def)

end
